theory Spec2Isabelle
  imports Main "HOL-Library.Word"
begin

section \<open>Go library functions used by the loader\<close>

text \<open>
  The loader (\<^verbatim>\<open>loader.go\<close>) reads its input line by line with a \<^verbatim>\<open>bufio.Scanner\<close>
  and cuts every line with \<^verbatim>\<open>strings.Fields\<close>. Strings are modelled as byte lists
  (\<^typ>\<open>string\<close>) and taken to be ASCII text; the white space of \<^verbatim>\<open>strings.Fields\<close> and
  of \<^verbatim>\<open>fmt\<close>'s scanner is then the six ASCII space bytes. Go's \<^verbatim>\<open>int\<close> is the 64-bit
  integer: parsed integers are checked against that range, as \<^verbatim>\<open>strconv.ParseInt\<close>
  does. The only arithmetic the loader does on an index is \<^verbatim>\<open>i - 1\<close>, which leaves the
  range only at \<open>i = - 2^63\<close>, where the wrapped index \<open>2^63 - 1\<close> is outside every Go
  slice just as the unwrapped \<open>- 2^63 - 1\<close> is; indices are therefore of type \<^typ>\<open>int\<close>.
\<close>

definition asciiSpace :: "char \<Rightarrow> bool" where
  "asciiSpace c = (c = CHR 0x09 \<or> c = CHR 0x0A \<or> c = CHR 0x0B \<or> c = CHR 0x0C
                   \<or> c = CHR 0x0D \<or> c = CHR '' '')"

text \<open>\<^verbatim>\<open>strings.Fields\<close>: the maximal runs of non-space bytes, in order. The first
  argument is the field being read.\<close>

fun fieldsFrom :: "string \<Rightarrow> string \<Rightarrow> string list" where
  "fieldsFrom cur [] = (if cur = [] then [] else [cur])"
| "fieldsFrom cur (c # cs) =
     (if asciiSpace c then (if cur = [] then fieldsFrom [] cs else cur # fieldsFrom [] cs)
      else fieldsFrom (cur @ [c]) cs)"

definition Fields :: "string \<Rightarrow> string list" where
  "Fields s = fieldsFrom [] s"

text \<open>\<^verbatim>\<open>strings.Trim(s, cutset)\<close>: drops the leading and trailing bytes that occur in
  the cut set.\<close>

definition Trim :: "string \<Rightarrow> string \<Rightarrow> string" where
  "Trim s cutset =
     rev (dropWhile (\<lambda>c. c \<in> set cutset) (rev (dropWhile (\<lambda>c. c \<in> set cutset) s)))"

text \<open>\<^verbatim>\<open>strings.Split(s, sep)\<close> for a separator of one byte: one more segment than
  there are separators, so never an empty list.\<close>

fun Split :: "string \<Rightarrow> char \<Rightarrow> string list" where
  "Split [] sep = [[]]"
| "Split (c # cs) sep =
     (if c = sep then [] # Split cs sep
      else (case Split cs sep of [] \<Rightarrow> [[c]] | seg # segs \<Rightarrow> (c # seg) # segs))"

definition isDigit :: "char \<Rightarrow> bool" where
  "isDigit c = (c \<in> set ''0123456789'')"

definition decVal :: "string \<Rightarrow> nat" where
  "decVal ds = foldl (\<lambda>n c. 10 * n + (of_char c - 48)) 0 ds"

definition inInt64 :: "int \<Rightarrow> bool" where
  "inInt64 v = (- (2 ^ 63) \<le> v \<and> v < 2 ^ 63)"

text \<open>\<^verbatim>\<open>strconv.Atoi\<close>: an optional sign and then decimal digits only, within the
  range of \<^verbatim>\<open>int\<close>; \<open>None\<close> is the returned error.\<close>

definition Atoi :: "string \<Rightarrow> int option" where
  "Atoi s =
     (let neg = (take 1 s = ''-'');
          ds = (if take 1 s = ''+'' \<or> take 1 s = ''-'' then drop 1 s else s);
          v = (if neg then - int (decVal ds) else int (decVal ds))
      in if ds = [] then None
         else if list_all isDigit ds \<and> inInt64 v then Some v
         else None)"

text \<open>\<^verbatim>\<open>fmt.Sprintf("%d", i)\<close>.\<close>

fun showNat :: "nat \<Rightarrow> string" where
  "showNat n = (if n < 10 then [''0123456789'' ! n]
                else showNat (n div 10) @ [''0123456789'' ! (n mod 10)])"

declare showNat.simps [simp del]

definition showInt :: "int \<Rightarrow> string" where
  "showInt i = (if i < 0 then CHR ''-'' # showNat (nat (- i)) else showNat (nat i))"

subsection \<open>\<^verbatim>\<open>fmt.Fscanf\<close> with \<^verbatim>\<open>%d\<close> verbs and literal bytes\<close>

text \<open>
  The formats of \<^verbatim>\<open>getFaceData\<close> are made of the verb \<^verbatim>\<open>%d\<close> and the literal \<^verbatim>\<open>/\<close>.
  \<^verbatim>\<open>Fscanf\<close> stores the operands one after the other and stops at the first error;
  \<open>doScanf\<close> returns the values stored, in order. An operand that was not stored keeps
  the value its variable had.
\<close>

datatype fmtItem = Verb_d | Lit char

text \<open>\<^verbatim>\<open>(*ss).SkipSpace\<close> of a scanner for which a newline is not a space: a newline
  is the error "unexpected newline" (\<open>None\<close>).\<close>

fun SkipSpace :: "string \<Rightarrow> string option" where
  "SkipSpace [] = Some []"
| "SkipSpace (c # cs) =
     (if c = CHR 0x0A then None
      else if asciiSpace c then SkipSpace cs
      else Some (c # cs))"

text \<open>\<^verbatim>\<open>(*ss).scanInt\<close> for the verb \<^verbatim>\<open>d\<close>: skip spaces, accept one sign, then at
  least one decimal digit; the token goes through \<^verbatim>\<open>strconv.ParseInt(tok, 10, 64)\<close>.
  The result is the value and the unread input, or \<open>None\<close> for an error.\<close>

definition scanInt :: "string \<Rightarrow> (int \<times> string) option" where
  "scanInt inp =
     (case SkipSpace inp of
        None \<Rightarrow> None
      | Some r \<Rightarrow>
          (let neg = (take 1 r = ''-'');
               r1 = (if take 1 r = ''+'' \<or> take 1 r = ''-'' then drop 1 r else r);
               tok = takeWhile isDigit r1;
               v = (if neg then - int (decVal tok) else int (decVal tok))
           in if tok = [] then None
              else if inInt64 v then Some (v, dropWhile isDigit r1)
              else None))"

fun doScanf :: "fmtItem list \<Rightarrow> string \<Rightarrow> int list" where
  "doScanf [] inp = []"
| "doScanf (Lit c # fmt) inp =
     (case inp of [] \<Rightarrow> [] | x # xs \<Rightarrow> if x = c then doScanf fmt xs else [])"
| "doScanf (Verb_d # fmt) inp =
     (case SkipSpace inp of
        None \<Rightarrow> []
      | Some r \<Rightarrow> (case scanInt r of None \<Rightarrow> [] | Some (v, rest) \<Rightarrow> v # doScanf fmt rest))"

text \<open>The \<open>k\<close>-th operand after the call: the value stored, or the zero the variable
  was declared with.\<close>

definition operand :: "int list \<Rightarrow> nat \<Rightarrow> int" where
  "operand vs k = (if k < length vs then vs ! k else 0)"

section \<open>Face tokens\<close>

text \<open>\<^verbatim>\<open>getFaceType\<close>: 0 for \<^verbatim>\<open>v\<close>, 1 for \<^verbatim>\<open>v/vt\<close>, 2 for \<^verbatim>\<open>v/vt/vn\<close>, 3 for
  \<^verbatim>\<open>v//vn\<close>, and -1 for an invalid token.\<close>

definition getFaceType :: "string \<Rightarrow> int" where
  "getFaceType p =
     (let v = Split p (CHR ''/'') in
      if length v = 0 then - 1
      else if length v = 1 then 0
      else if length v = 2 then 1
      else if length v = 3 then (if v ! 1 \<noteq> [] then 2 else 3)
      else - 1)"

text \<open>\<^verbatim>\<open>getFaceData\<close>: the result of \<^verbatim>\<open>Fscanf\<close> is not looked at, so an operand the
  scan did not reach is 0. The default branch only prints a message.\<close>

definition getFaceData :: "string \<Rightarrow> int \<Rightarrow> int list" where
  "getFaceData p vtype =
     (if vtype = 0 then
        (let vs = doScanf [Verb_d] p in [operand vs 0])
      else if vtype = 1 then
        (let vs = doScanf [Verb_d, Lit (CHR ''/''), Verb_d] p in [operand vs 0, operand vs 1])
      else if vtype = 2 then
        (let vs = doScanf [Verb_d, Lit (CHR ''/''), Verb_d, Lit (CHR ''/''), Verb_d] p
         in [operand vs 0, operand vs 1, operand vs 2])
      else if vtype = 3 then
        (let vs = doScanf [Verb_d, Lit (CHR ''/''), Lit (CHR ''/''), Verb_d] p
         in [operand vs 0, operand vs 1])
      else [])"

section \<open>Failures\<close>

text \<open>
  A run of the loader ends in one of three ways: it returns \<^verbatim>\<open>nil\<close>, it returns an
  error, or it panics. The first three constructors are the run-time panics of Go (index
  out of range, slice bounds out of range, nil pointer dereference); the others are the
  errors the loader returns: \<^verbatim>\<open>errorInvalidFormat(msg, parts)\<close>,
  \<^verbatim>\<open>errorNotSupported(msg, parts)\<close>, the errors of \<^verbatim>\<open>strconv.ParseFloat\<close>,
  \<^verbatim>\<open>strconv.Atoi\<close> and \<^verbatim>\<open>os.Open\<close>, and the error of the scanner.
\<close>

datatype failure =
    IndexOutOfRange
  | SliceBoundsOutOfRange
  | NilDereference
  | InvalidFormat string "string list"
  | NotSupported string "string list"
  | ParseFloatError string
  | AtoiError string
  | OpenError string
  | ReadError

text \<open>
  The maps \<^verbatim>\<open>*meshes\<close> and \<^verbatim>\<open>*materials\<close> belong to the caller and are written in
  place, so what was written before a failure stays written. A failed run therefore
  carries the state it stopped in.
\<close>

datatype 's outcome = Done 's | Failed failure 's

text \<open>\<^verbatim>\<open>xs[i]\<close>: a panic outside \<open>0 \<le> i < len(xs)\<close>.\<close>

definition index_go :: "'b list \<Rightarrow> int \<Rightarrow> failure + 'b" where
  "index_go xs i =
     (if 0 \<le> i \<and> i < int (length xs) then Inr (xs ! nat i) else Inl IndexOutOfRange)"

text \<open>\<^verbatim>\<open>xs[:n]\<close>: a panic when \<open>n\<close> exceeds the capacity. The slices cut this way
  come from \<^verbatim>\<open>strings.Fields(...)[1:]\<close>, whose capacity is its length.\<close>

definition sliceTo :: "'b list \<Rightarrow> nat \<Rightarrow> failure + 'b list" where
  "sliceTo xs n = (if n \<le> length xs then Inr (take n xs) else Inl SliceBoundsOutOfRange)"

section \<open>Numeric fields\<close>

text \<open>
  \<^verbatim>\<open>float32\<close> is a type parameter \<open>'a\<close> with a zero, a subtraction and a
  multiplication, and \<^verbatim>\<open>strconv.ParseFloat(v, 32)\<close> followed by the conversion to
  \<^verbatim>\<open>float32\<close> is a parameter \<open>pf\<close> of the loader (\<open>None\<close> when \<^verbatim>\<open>ParseFloat\<close>
  returns an error). Nothing is assumed of either.
\<close>

fun sliceToFloat32 :: "(string \<Rightarrow> 'a option) \<Rightarrow> string list \<Rightarrow> failure + 'a list" where
  "sliceToFloat32 pf [] = Inr []"
| "sliceToFloat32 pf (v # vs) =
     (case pf v of
        None \<Rightarrow> Inl (ParseFloatError v)
      | Some num \<Rightarrow>
          (case sliceToFloat32 pf vs of Inl e \<Rightarrow> Inl e | Inr result \<Rightarrow> Inr (num # result)))"

fun sliceToInt :: "string list \<Rightarrow> failure + int list" where
  "sliceToInt [] = Inr []"
| "sliceToInt (v # vs) =
     (case Atoi v of
        None \<Rightarrow> Inl (AtoiError v)
      | Some num \<Rightarrow> (case sliceToInt vs of Inl e \<Rightarrow> Inl e | Inr result \<Rightarrow> Inr (num # result)))"

type_synonym 'a Vec3 = "'a \<times> 'a \<times> 'a"
type_synonym 'a Vec2 = "'a \<times> 'a"

text \<open>\<^verbatim>\<open>v[:]\<close> of an array.\<close>

definition slice3 :: "'a Vec3 \<Rightarrow> 'a list" where
  "slice3 v = (case v of (x, y, z) \<Rightarrow> [x, y, z])"

definition slice2 :: "'a Vec2 \<Rightarrow> 'a list" where
  "slice2 v = (case v of (x, y) \<Rightarrow> [x, y])"

text \<open>\<^verbatim>\<open>Vec3{nums[0], nums[1], nums[2]}\<close> and \<^verbatim>\<open>Vec2{uv[0], uv[1]}\<close>.\<close>

definition mkVec3 :: "'a list \<Rightarrow> failure + 'a Vec3" where
  "mkVec3 nums =
     (case index_go nums 0 of Inl e \<Rightarrow> Inl e | Inr x \<Rightarrow>
      (case index_go nums 1 of Inl e \<Rightarrow> Inl e | Inr y \<Rightarrow>
       (case index_go nums 2 of Inl e \<Rightarrow> Inl e | Inr z \<Rightarrow> Inr (x, y, z))))"

definition mkVec2 :: "'a list \<Rightarrow> failure + 'a Vec2" where
  "mkVec2 nums =
     (case index_go nums 0 of Inl e \<Rightarrow> Inl e | Inr x \<Rightarrow>
      (case index_go nums 1 of Inl e \<Rightarrow> Inl e | Inr y \<Rightarrow> Inr (x, y)))"

section \<open>The material library\<close>

record 'a Material =
  Name :: string
  Ns :: 'a
  Ni :: 'a
  D :: 'a
  Illum :: "32 word"
  Ka :: "'a Vec3"
  Kd :: "'a Vec3"
  Ks :: "'a Vec3"
  Ke :: "'a Vec3"
  Ki :: "'a Vec3"

type_synonym 'a MaterialMap = "string \<rightharpoonup> 'a Material"

text \<open>\<^verbatim>\<open>&Material{Name: name}\<close>: every other field has its zero value.\<close>

definition newMaterial :: "string \<Rightarrow> ('a::zero) Material" where
  "newMaterial name =
     \<lparr>Name = name, Ns = 0, Ni = 0, D = 0, Illum = 0, Ka = (0, 0, 0), Kd = (0, 0, 0),
      Ks = (0, 0, 0), Ke = (0, 0, 0), Ki = (0, 0, 0)\<rparr>"

text \<open>
  The state of \<^verbatim>\<open>LoadMtl\<close> is the pointer \<^verbatim>\<open>m\<close> and the map. \<^verbatim>\<open>m\<close> is \<^verbatim>\<open>nil\<close>
  (\<open>None\<close>) or points to the record of the last \<^verbatim>\<open>newmtl\<close>, which the same line stored
  in the map under its name; nothing else writes the map, so the map still holds that
  record under \<open>Name\<close>, and a write through \<^verbatim>\<open>m\<close> is a write to that entry. The loader
  never reads or writes through a pointer the caller put into the map.
\<close>

type_synonym 'a MtlState = "'a Material option \<times> 'a MaterialMap"

text \<open>\<^verbatim>\<open>m.Field = value\<close>.\<close>

definition assignField :: "('a Material \<Rightarrow> 'a Material) \<Rightarrow> 'a MtlState \<Rightarrow> 'a MtlState outcome" where
  "assignField upd st =
     (case fst st of
        None \<Rightarrow> Failed NilDereference st
      | Some mat \<Rightarrow> Done (Some (upd mat), (snd st)(Name mat \<mapsto> upd mat)))"

definition mustHave :: "string \<Rightarrow> string \<Rightarrow> string" where
  "mustHave key n = [CHR 0x27] @ key @ [CHR 0x27] @ '' must have '' @ n @ '' element''"

text \<open>The scalar keywords \<^verbatim>\<open>Ns\<close>, \<^verbatim>\<open>Ni\<close>, \<^verbatim>\<open>d\<close>.\<close>

definition scalarField ::
  "(string \<Rightarrow> 'a option) \<Rightarrow> string \<Rightarrow> ('a \<Rightarrow> 'a Material \<Rightarrow> 'a Material) \<Rightarrow> string list \<Rightarrow>
     'a MtlState \<Rightarrow> 'a MtlState outcome" where
  "scalarField pf key upd parts st =
     (if length parts < 1 then Failed (InvalidFormat (mustHave key ''1'') parts) st
      else (case pf (parts ! 0) of
              None \<Rightarrow> Failed (ParseFloatError (parts ! 0)) st
            | Some num \<Rightarrow> assignField (upd num) st))"

text \<open>The vector keywords \<^verbatim>\<open>Ka\<close>, \<^verbatim>\<open>Kd\<close>, \<^verbatim>\<open>Ke\<close>, \<^verbatim>\<open>Ki\<close>, \<^verbatim>\<open>Ks\<close>: every field of
  the line is parsed, the first three are stored.\<close>

definition vectorField ::
  "(string \<Rightarrow> 'a option) \<Rightarrow> string \<Rightarrow> ('a Vec3 \<Rightarrow> 'a Material \<Rightarrow> 'a Material) \<Rightarrow> string list \<Rightarrow>
     'a MtlState \<Rightarrow> 'a MtlState outcome" where
  "vectorField pf key upd parts st =
     (if length parts < 3 then Failed (InvalidFormat (mustHave key ''3'') parts) st
      else (case sliceToFloat32 pf parts of
              Inl e \<Rightarrow> Failed e st
            | Inr nums \<Rightarrow>
                (case mkVec3 nums of
                   Inl e \<Rightarrow> Failed e st
                 | Inr v \<Rightarrow> assignField (upd v) st)))"

text \<open>One turn of the loop of \<^verbatim>\<open>LoadMtl\<close>.\<close>

definition mtlLine :: "(string \<Rightarrow> ('a::zero) option) \<Rightarrow> 'a MtlState \<Rightarrow> string \<Rightarrow> 'a MtlState outcome" where
  "mtlLine pf st rawText =
     (case Fields rawText of
        [] \<Rightarrow> Done st
      | key # parts \<Rightarrow>
          if key = ''newmtl'' then
            (case index_go parts 0 of
               Inl e \<Rightarrow> Failed e st
             | Inr name \<Rightarrow> Done (Some (newMaterial name), (snd st)(name \<mapsto> newMaterial name)))
          else if key = ''Ns'' then scalarField pf key (\<lambda>num mat. mat\<lparr>Ns := num\<rparr>) parts st
          else if key = ''Ni'' then scalarField pf key (\<lambda>num mat. mat\<lparr>Ni := num\<rparr>) parts st
          else if key = ''d'' then scalarField pf key (\<lambda>num mat. mat\<lparr>D := num\<rparr>) parts st
          else if key = ''illum'' then
            (if length parts < 1 then Failed (InvalidFormat (mustHave key ''1'') parts) st
             else (case Atoi (parts ! 0) of
                     None \<Rightarrow> Failed (AtoiError (parts ! 0)) st
                   | Some num \<Rightarrow> assignField (\<lambda>mat. mat\<lparr>Illum := word_of_int num\<rparr>) st))
          else if key = ''Ka'' then vectorField pf key (\<lambda>v mat. mat\<lparr>Ka := v\<rparr>) parts st
          else if key = ''Kd'' then vectorField pf key (\<lambda>v mat. mat\<lparr>Kd := v\<rparr>) parts st
          else if key = ''Ke'' then vectorField pf key (\<lambda>v mat. mat\<lparr>Ke := v\<rparr>) parts st
          else if key = ''Ki'' then vectorField pf key (\<lambda>v mat. mat\<lparr>Ki := v\<rparr>) parts st
          else if key = ''Ks'' then vectorField pf key (\<lambda>v mat. mat\<lparr>Ks := v\<rparr>) parts st
          else Done st)"

fun mtlLines :: "(string \<Rightarrow> ('a::zero) option) \<Rightarrow> 'a MtlState \<Rightarrow> string list \<Rightarrow> 'a MtlState outcome" where
  "mtlLines pf st [] = Done st"
| "mtlLines pf st (l # ls) =
     (case mtlLine pf st l of Failed e st' \<Rightarrow> Failed e st' | Done st' \<Rightarrow> mtlLines pf st' ls)"

text \<open>
  A file, as the scanner delivers it: the lines it yields, and whether it stopped on an
  error (a read error or a line too long) rather than at the end of the file. The file
  system maps a path to its file, or to \<open>None\<close> when \<^verbatim>\<open>os.Open\<close> fails.
\<close>

type_synonym textFile = "string list \<times> bool"
type_synonym fileSystem = "string \<Rightarrow> textFile option"

text \<open>\<^verbatim>\<open>LoadMtl\<close> does not look at \<^verbatim>\<open>scanner.Err()\<close>.\<close>

definition LoadMtl ::
  "(string \<Rightarrow> ('a::zero) option) \<Rightarrow> fileSystem \<Rightarrow> string \<Rightarrow> 'a MaterialMap \<Rightarrow> 'a MaterialMap outcome" where
  "LoadMtl pf fs filePath mats =
     (case fs filePath of
        None \<Rightarrow> Failed (OpenError filePath) mats
      | Some f \<Rightarrow>
          (case mtlLines pf (None, mats) (fst f) of
             Failed e st \<Rightarrow> Failed e (snd st)
           | Done st \<Rightarrow> Done (snd st)))"

section \<open>The geometry loader\<close>

record 'a Mesh =
  Vertices :: "'a list"
  Vtype :: int
  MaterialName :: string

record Options =
  NeedNormals :: bool

text \<open>
  \<^verbatim>\<open>MeshMap\<close> is a map from the mesh identifier to a pointer to a mesh. The caller's map
  is taken to hold under each key a mesh of its own (no \<^verbatim>\<open>nil\<close>, no pointer under two
  keys), as every map does that was empty when first handed to the loader: the loader
  stores a fresh mesh under each key it adds. The map is then a map from identifiers to
  meshes.
\<close>

type_synonym 'a MeshMap = "string \<rightharpoonup> 'a Mesh"

text \<open>The local variables of \<^verbatim>\<open>LoadObj\<close> and the two maps of the caller.\<close>

record 'a ObjState =
  positions :: "'a Vec3 list"
  normals :: "'a Vec3 list"
  uvs :: "'a Vec2 list"
  lineCounter :: nat
  facesCounter :: nat
  currentMaterial :: string
  nsMap :: "string set"
  meshes :: "'a MeshMap"
  materials :: "'a MaterialMap"

definition initState :: "'a MeshMap \<Rightarrow> 'a MaterialMap \<Rightarrow> 'a ObjState" where
  "initState ms mats =
     \<lparr>positions = [], normals = [], uvs = [], lineCounter = 0, facesCounter = 0,
      currentMaterial = ''default'', nsMap = {}, meshes = ms, materials = mats\<rparr>"

subsection \<open>The records \<^verbatim>\<open>v\<close>, \<^verbatim>\<open>vn\<close> and \<^verbatim>\<open>vt\<close>\<close>

text \<open>The fields of a \<^verbatim>\<open>v\<close> or \<^verbatim>\<open>vn\<close> record (the two cases differ in the message):
  the test for more than three fields, \<^verbatim>\<open>sliceToFloat32(parts[:3])\<close>, and the array
  built from the result.\<close>

definition vec3Fields :: "(string \<Rightarrow> 'a option) \<Rightarrow> string \<Rightarrow> string list \<Rightarrow> failure + 'a Vec3" where
  "vec3Fields pf msg parts =
     (if length parts > 3 then Inl (InvalidFormat msg parts)
      else (case sliceTo parts 3 of
              Inl e \<Rightarrow> Inl e
            | Inr firstParts \<Rightarrow>
                (case sliceToFloat32 pf firstParts of Inl e \<Rightarrow> Inl e | Inr vert \<Rightarrow> mkVec3 vert)))"

definition vec2Fields :: "(string \<Rightarrow> 'a option) \<Rightarrow> string \<Rightarrow> string list \<Rightarrow> failure + 'a Vec2" where
  "vec2Fields pf msg parts =
     (if length parts > 2 then Inl (InvalidFormat msg parts)
      else (case sliceTo parts 2 of
              Inl e \<Rightarrow> Inl e
            | Inr firstParts \<Rightarrow>
                (case sliceToFloat32 pf firstParts of Inl e \<Rightarrow> Inl e | Inr uv \<Rightarrow> mkVec2 uv)))"

subsection \<open>The record \<^verbatim>\<open>f\<close>\<close>

text \<open>A token is trimmed of its leading and trailing slashes before it is classified
  and decoded.\<close>

definition tokenType :: "string \<Rightarrow> int" where
  "tokenType p = getFaceType (Trim p ''/'')"

definition tokenRefs :: "int \<Rightarrow> string \<Rightarrow> int list" where
  "tokenRefs vtype p = getFaceData (Trim p ''/'') vtype"

text \<open>The loop over the tokens.\<close>

fun faceTokens :: "int \<Rightarrow> string list \<Rightarrow> string list \<Rightarrow> failure + int list list" where
  "faceTokens vtype parts [] = Inr []"
| "faceTokens vtype parts (p # ps) =
     (if vtype \<noteq> tokenType p
      then Inl (InvalidFormat ''Faces cannot have inconsistent format'' parts)
      else (case faceTokens vtype parts ps of
              Inl e \<Rightarrow> Inl e
            | Inr faces \<Rightarrow> Inr (tokenRefs vtype p # faces)))"

text \<open>\<^verbatim>\<open>arr[f[k]-1]\<close>, and the three of a triangle in the order of the source.\<close>

definition deref :: "'b list \<Rightarrow> int list \<Rightarrow> int \<Rightarrow> failure + 'b" where
  "deref arr f k = (case index_go f k of Inl e \<Rightarrow> Inl e | Inr i \<Rightarrow> index_go arr (i - 1))"

definition deref3 :: "'b list \<Rightarrow> int list \<Rightarrow> int list \<Rightarrow> int list \<Rightarrow> int \<Rightarrow> failure + 'b \<times> 'b \<times> 'b" where
  "deref3 arr f1 f2 f3 k =
     (case deref arr f1 k of Inl e \<Rightarrow> Inl e | Inr a \<Rightarrow>
      (case deref arr f2 k of Inl e \<Rightarrow> Inl e | Inr b \<Rightarrow>
       (case deref arr f3 k of Inl e \<Rightarrow> Inl e | Inr c \<Rightarrow> Inr (a, b, c))))"

text \<open>The normal the loader computes for a triangle without normal references: with
  \<open>u = vb - va\<close> and \<open>v = vc - va\<close>, the cross product of \<open>u\<close> and \<open>v\<close>.\<close>

fun flatNormal :: "('a::{minus,times}) Vec3 \<Rightarrow> 'a Vec3 \<Rightarrow> 'a Vec3 \<Rightarrow> 'a Vec3" where
  "flatNormal (a0, a1, a2) (b0, b1, b2) (c0, c1, c2) =
     (let u0 = b0 - a0; u1 = b1 - a1; u2 = b2 - a2;
          v0 = c0 - a0; v1 = c1 - a1; v2 = c2 - a2
      in (u1 * v2 - u2 * v1, u2 * v0 - u0 * v2, u0 * v1 - u1 * v0))"

text \<open>The attributes of one vertex, as appended to \<^verbatim>\<open>vertices\<close>.\<close>

definition vertexAttrs :: "Options \<Rightarrow> int \<Rightarrow> 'a Vec3 \<Rightarrow> 'a Vec2 \<Rightarrow> 'a Vec3 \<Rightarrow> 'a list" where
  "vertexAttrs options uvIdx v uv n =
     slice3 v @ (if uvIdx \<noteq> - 1 then slice2 uv else [])
       @ (if NeedNormals options then slice3 n else [])"

text \<open>The body of the loop over the triangles.\<close>

definition triangle ::
  "Options \<Rightarrow> ('a::{zero,minus,times}) ObjState \<Rightarrow> int \<Rightarrow> int \<Rightarrow> int list \<Rightarrow> int list \<Rightarrow> int list \<Rightarrow>
     failure + 'a list" where
  "triangle options s uvIdx nIdx f1 f2 f3 =
     (case deref3 (positions s) f1 f2 f3 0 of
        Inl e \<Rightarrow> Inl e
      | Inr (va, vb, vc) \<Rightarrow>
          (case (if nIdx \<noteq> - 1 then deref3 (normals s) f1 f2 f3 nIdx
                 else if NeedNormals options
                   then Inr (flatNormal va vb vc, flatNormal va vb vc, flatNormal va vb vc)
                 else Inr ((0, 0, 0), (0, 0, 0), (0, 0, 0))) of
             Inl e \<Rightarrow> Inl e
           | Inr (na, nb, nc) \<Rightarrow>
               (case (if uvIdx \<noteq> - 1 then deref3 (uvs s) f1 f2 f3 uvIdx
                      else Inr ((0, 0), (0, 0), (0, 0))) of
                  Inl e \<Rightarrow> Inl e
                | Inr (uva, uvb, uvc) \<Rightarrow>
                    Inr (vertexAttrs options uvIdx va uva na
                         @ vertexAttrs options uvIdx vb uvb nb
                         @ vertexAttrs options uvIdx vc uvc nc))))"

text \<open>The loop \<^verbatim>\<open>for i := 0; i < len(faces); i += 3\<close>. The last equation is
  \<^verbatim>\<open>faces[i+1]\<close> or \<^verbatim>\<open>faces[i+2]\<close> past the end.\<close>

fun triangles ::
  "Options \<Rightarrow> ('a::{zero,minus,times}) ObjState \<Rightarrow> int \<Rightarrow> int \<Rightarrow> int list list \<Rightarrow> failure + 'a list" where
  "triangles options s uvIdx nIdx [] = Inr []"
| "triangles options s uvIdx nIdx (f1 # f2 # f3 # faces) =
     (case triangle options s uvIdx nIdx f1 f2 f3 of
        Inl e \<Rightarrow> Inl e
      | Inr vs \<Rightarrow>
          (case triangles options s uvIdx nIdx faces of
             Inl e \<Rightarrow> Inl e
           | Inr ws \<Rightarrow> Inr (vs @ ws)))"
| "triangles options s uvIdx nIdx faces = Inl IndexOutOfRange"

text \<open>The offsets \<^verbatim>\<open>uvIdx\<close> and \<^verbatim>\<open>nIdx\<close> of the encoding: where a decoded token has
  its uv and its normal reference, or -1.\<close>

definition uvIdxOf :: "int \<Rightarrow> int" where
  "uvIdxOf vtype = (if vtype = 2 \<or> vtype = 1 then 1 else - 1)"

definition nIdxOf :: "int \<Rightarrow> int" where
  "nIdxOf vtype = (if vtype = 2 then 2 else if vtype = 3 then 1 else - 1)"

text \<open>From the decoding of the tokens to the local \<^verbatim>\<open>vertices\<close>.\<close>

definition faceVertices ::
  "Options \<Rightarrow> ('a::{zero,minus,times}) ObjState \<Rightarrow> int \<Rightarrow> string list \<Rightarrow> failure + 'a list" where
  "faceVertices options s vtype parts =
     (case faceTokens vtype parts parts of
        Inl e \<Rightarrow> Inl e
      | Inr faces \<Rightarrow>
          if length faces mod 3 \<noteq> 0 then Inl (InvalidFormat ''Undefined Behavior'' parts)
          else triangles options s (uvIdxOf vtype) (nIdxOf vtype) faces)"

definition meshID :: "int \<Rightarrow> string \<Rightarrow> string" where
  "meshID vtype mat = ''mesh-vtype'' @ showInt vtype @ ''-material'' @ mat"

text \<open>The write to the bucket: the mesh under the identifier, created empty when the
  key is new, gets the vertices appended.\<close>

definition appendToMesh :: "'a MeshMap \<Rightarrow> int \<Rightarrow> string \<Rightarrow> 'a list \<Rightarrow> 'a MeshMap" where
  "appendToMesh ms vtype mat vertices =
     (let mesh = (case ms (meshID vtype mat) of
                    None \<Rightarrow> \<lparr>Vertices = [], Vtype = vtype, MaterialName = mat\<rparr>
                  | Some mesh \<Rightarrow> mesh)
      in ms(meshID vtype mat \<mapsto> mesh\<lparr>Vertices := Vertices mesh @ vertices\<rparr>))"

definition faceRecord ::
  "Options \<Rightarrow> ('a::{zero,minus,times}) ObjState \<Rightarrow> string list \<Rightarrow> 'a ObjState outcome" where
  "faceRecord options s parts =
     (case index_go parts 0 of
        Inl e \<Rightarrow> Failed e s
      | Inr p0 \<Rightarrow>
          (let vtype = tokenType p0 in
           if length parts < 3
             then Failed (InvalidFormat ''Faces cannot have length less than 3'' parts) s
           else if length parts \<noteq> 3
             then Failed (NotSupported ''Only Supports faces with length 3'' parts) s
           else if vtype = - 1
             then Failed (InvalidFormat ''Undefined face format'' parts) s
           else (case faceVertices options s vtype parts of
                   Inl e \<Rightarrow> Failed e s
                 | Inr vertices \<Rightarrow>
                     Done (s\<lparr>meshes :=
                               (if vertices \<noteq> []
                                then appendToMesh (meshes s) vtype (currentMaterial s) vertices
                                else meshes s),
                             facesCounter := facesCounter s + 1\<rparr>))))"

subsection \<open>The loop over the lines\<close>

text \<open>\<^verbatim>\<open>mtllib\<close>: the libraries are loaded in order, up to the first that fails.\<close>

fun loadLibraries ::
  "(string \<Rightarrow> ('a::zero) option) \<Rightarrow> fileSystem \<Rightarrow> string list \<Rightarrow> 'a MaterialMap \<Rightarrow> 'a MaterialMap outcome" where
  "loadLibraries pf fs [] mats = Done mats"
| "loadLibraries pf fs (filePath # paths) mats =
     (case LoadMtl pf fs filePath mats of
        Failed e mats' \<Rightarrow> Failed e mats'
      | Done mats' \<Rightarrow> loadLibraries pf fs paths mats')"

text \<open>\<^verbatim>\<open>usemtl\<close>: the material named by the only field of the record, and
  \<^verbatim>\<open>"default"\<close> when the record has not exactly one field or the field is empty.\<close>

definition usemtlName :: "string list \<Rightarrow> string" where
  "usemtlName parts =
     (case parts of
        [name] \<Rightarrow> if name = [] then ''default'' else name
      | _ \<Rightarrow> ''default'')"

text \<open>One turn of the loop of \<^verbatim>\<open>LoadObj\<close>. The message printed for a keyword that is
  not supported goes to the standard output and is left out.\<close>

definition objLine ::
  "(string \<Rightarrow> 'a option) \<Rightarrow> fileSystem \<Rightarrow> Options \<Rightarrow> ('a::{zero,minus,times}) ObjState \<Rightarrow> string \<Rightarrow>
     'a ObjState outcome" where
  "objLine pf fs options s0 rawText =
     (let s = s0\<lparr>lineCounter := lineCounter s0 + 1\<rparr> in
      case Fields rawText of
        [] \<Rightarrow> Done s
      | key # parts \<Rightarrow>
          if key = ''#'' then Done s
          else if key = ''v'' then
            (case vec3Fields pf ''Vertex Position can only have 3 elements'' parts of
               Inl e \<Rightarrow> Failed e s
             | Inr v \<Rightarrow> Done (s\<lparr>positions := positions s @ [v]\<rparr>))
          else if key = ''vn'' then
            (case vec3Fields pf ''Surface Normal can only have 3 elements'' parts of
               Inl e \<Rightarrow> Failed e s
             | Inr n \<Rightarrow> Done (s\<lparr>normals := normals s @ [n]\<rparr>))
          else if key = ''vt'' then
            (case vec2Fields pf ''Texture coords only have 2 elements'' parts of
               Inl e \<Rightarrow> Failed e s
             | Inr uv \<Rightarrow> Done (s\<lparr>uvs := uvs s @ [uv]\<rparr>))
          else if key = ''f'' then faceRecord options s parts
          else if key = ''usemtl'' then
            Done (s\<lparr>currentMaterial := usemtlName parts\<rparr>)
          else if key = ''mtllib'' then
            (case loadLibraries pf fs parts (materials s) of
               Failed e mats \<Rightarrow> Failed e (s\<lparr>materials := mats\<rparr>)
             | Done mats \<Rightarrow> Done (s\<lparr>materials := mats\<rparr>))
          else Done (if key \<in> nsMap s then s else s\<lparr>nsMap := insert key (nsMap s)\<rparr>))"

fun objLines ::
  "(string \<Rightarrow> 'a option) \<Rightarrow> fileSystem \<Rightarrow> Options \<Rightarrow> ('a::{zero,minus,times}) ObjState \<Rightarrow> string list \<Rightarrow>
     'a ObjState outcome" where
  "objLines pf fs options s [] = Done s"
| "objLines pf fs options s (l # ls) =
     (case objLine pf fs options s l of
        Failed e s' \<Rightarrow> Failed e s'
      | Done s' \<Rightarrow> objLines pf fs options s' ls)"

text \<open>\<^verbatim>\<open>LoadObj\<close>: what the caller has afterwards is the two maps.\<close>

definition LoadObj ::
  "(string \<Rightarrow> 'a option) \<Rightarrow> fileSystem \<Rightarrow> string \<Rightarrow> ('a::{zero,minus,times}) MeshMap \<Rightarrow> 'a MaterialMap \<Rightarrow> Options \<Rightarrow>
     ('a MeshMap \<times> 'a MaterialMap) outcome" where
  "LoadObj pf fs filePath ms mats options =
     (case fs filePath of
        None \<Rightarrow> Failed (OpenError filePath) (ms, mats)
      | Some f \<Rightarrow>
          (case objLines pf fs options (initState ms mats) (fst f) of
             Failed e s \<Rightarrow> Failed e (meshes s, materials s)
           | Done s \<Rightarrow>
               if snd f then Failed ReadError (meshes s, materials s)
               else Done (meshes s, materials s)))"

section \<open>What the specification says of a face record\<close>

text \<open>
  The specification speaks of 1-based index references: the reference \<open>i\<close> is in range
  of an array when \<open>1 \<le> i \<le> length\<close>, and it then stands for the \<open>(i-1)\<close>-th element.
\<close>

definition spec_inRange :: "'b list \<Rightarrow> int \<Rightarrow> bool" where
  "spec_inRange arr i = (1 \<le> i \<and> i \<le> int (length arr))"

definition spec_element :: "'b list \<Rightarrow> int \<Rightarrow> 'b" where
  "spec_element arr i = arr ! (nat i - 1)"

text \<open>The references a decoded token \<open>f\<close> carries under an encoding are all in range:
  the position reference is \<open>f ! 0\<close>; the uv reference is \<open>f ! 1\<close> for \<^verbatim>\<open>v/vt\<close> and
  \<^verbatim>\<open>v/vt/vn\<close>; the normal reference is \<open>f ! 2\<close> for \<^verbatim>\<open>v/vt/vn\<close> and \<open>f ! 1\<close> for
  \<^verbatim>\<open>v//vn\<close>.\<close>

definition spec_refsInRange :: "'a ObjState \<Rightarrow> int \<Rightarrow> int list \<Rightarrow> bool" where
  "spec_refsInRange s vtype f =
     (spec_inRange (positions s) (f ! 0)
      \<and> (if vtype = 1 \<or> vtype = 2 then spec_inRange (uvs s) (f ! 1) else True)
      \<and> (if vtype = 2 then spec_inRange (normals s) (f ! 2)
         else if vtype = 3 then spec_inRange (normals s) (f ! 1)
         else True))"

text \<open>The attributes of the vertex of a decoded token, in the order position, uv,
  normal: the uv when the encoding has one; a normal when the option asks for normals,
  the referenced one when the encoding has one and the normal \<open>flat\<close> of the triangle
  otherwise.\<close>

definition spec_vertex :: "Options \<Rightarrow> 'a ObjState \<Rightarrow> int \<Rightarrow> 'a Vec3 \<Rightarrow> int list \<Rightarrow> 'a list" where
  "spec_vertex options s vtype flat f =
     slice3 (spec_element (positions s) (f ! 0))
     @ (if vtype = 1 \<or> vtype = 2 then slice2 (spec_element (uvs s) (f ! 1)) else [])
     @ (if NeedNormals options
        then slice3 (if vtype = 2 then spec_element (normals s) (f ! 2)
                     else if vtype = 3 then spec_element (normals s) (f ! 1)
                     else flat)
        else [])"

definition spec_flat :: "('a::{minus,times}) ObjState \<Rightarrow> int list \<Rightarrow> int list \<Rightarrow> int list \<Rightarrow> 'a Vec3" where
  "spec_flat s f1 f2 f3 =
     flatNormal (spec_element (positions s) (f1 ! 0)) (spec_element (positions s) (f2 ! 0))
       (spec_element (positions s) (f3 ! 0))"

definition spec_triangle ::
  "Options \<Rightarrow> ('a::{minus,times}) ObjState \<Rightarrow> int \<Rightarrow> int list \<Rightarrow> int list \<Rightarrow> int list \<Rightarrow> 'a list" where
  "spec_triangle options s vtype f1 f2 f3 =
     spec_vertex options s vtype (spec_flat s f1 f2 f3) f1
     @ spec_vertex options s vtype (spec_flat s f1 f2 f3) f2
     @ spec_vertex options s vtype (spec_flat s f1 f2 f3) f3"

text \<open>The three tokens of a face record that passes the checks have one encoding.\<close>

definition sameEncoding :: "int \<Rightarrow> string \<Rightarrow> string \<Rightarrow> string \<Rightarrow> bool" where
  "sameEncoding vtype p1 p2 p3 =
     (tokenType p1 = vtype \<and> tokenType p2 = vtype \<and> tokenType p3 = vtype \<and> 0 \<le> vtype \<and> vtype \<le> 3)"

definition allRefsInRange :: "'a ObjState \<Rightarrow> int \<Rightarrow> string \<Rightarrow> string \<Rightarrow> string \<Rightarrow> bool" where
  "allRefsInRange s vtype p1 p2 p3 =
     (spec_refsInRange s vtype (tokenRefs vtype p1) \<and> spec_refsInRange s vtype (tokenRefs vtype p2)
      \<and> spec_refsInRange s vtype (tokenRefs vtype p3))"

text \<open>What a bucket holds: the vertex data under a mesh identifier, nothing when the
  map has no such key.\<close>

definition bucketVertices :: "'a MeshMap \<Rightarrow> string \<Rightarrow> 'a list" where
  "bucketVertices ms k = (case ms k of None \<Rightarrow> [] | Some mesh \<Rightarrow> Vertices mesh)"

section \<open>Sample data\<close>

text \<open>A state with three positions, two uvs and one normal, over the integers, and
  empty maps.\<close>

definition sampleState :: "int ObjState" where
  "sampleState =
     \<lparr>positions = [(0, 0, 0), (1, 0, 0), (0, 1, 0)], normals = [(5, 6, 7)],
      uvs = [(0, 0), (1, 1)], lineCounter = 0, facesCounter = 0,
      currentMaterial = ''default'', nsMap = {}, meshes = Map.empty, materials = Map.empty\<rparr>"

section \<open>Observations on runs\<close>

text \<open>The state a run ends in, returned or not.\<close>

definition outcomeState :: "'s outcome \<Rightarrow> 's" where
  "outcomeState r = (case r of Done s \<Rightarrow> s | Failed e s \<Rightarrow> s)"

text \<open>Every bucket of the first map is a bucket of the second, under the same key and
  with the same encoding and material, and holds there what it held, with more data at
  the end or none.\<close>

definition bucketsKept :: "'a MeshMap \<Rightarrow> 'a MeshMap \<Rightarrow> bool" where
  "bucketsKept ms ms' =
     (\<forall>k mesh. ms k = Some mesh \<longrightarrow>
        (\<exists>mesh'. ms' k = Some mesh' \<and> Vtype mesh' = Vtype mesh
           \<and> MaterialName mesh' = MaterialName mesh
           \<and> (\<exists>vs. Vertices mesh' = Vertices mesh @ vs)))"

text \<open>A number parser for the sample files, over the integers: it reads the integer
  literals, as \<^verbatim>\<open>strconv.ParseFloat\<close> does.\<close>

definition sampleFloat :: "string \<Rightarrow> int option" where
  "sampleFloat v = Atoi v"

text \<open>Two files: a geometry file with a triangle and a reference to a material library,
  and the library, whose second line has too few fields.\<close>

definition sampleFiles :: fileSystem where
  "sampleFiles path =
     (if path = ''a.obj''
        then Some ([''v 0 0 0'', ''v 1 0 0'', ''v 0 1 0'', ''f 1 2 3'', ''mtllib m.mtl'',
                    ''f 3 2 1''], False)
      else if path = ''m.mtl'' then Some ([''newmtl wood'', ''Kd 1''], False)
      else None)"

section \<open>Properties\<close>

lemmas scan_defs = getFaceData_def scanInt_def operand_def isDigit_def decVal_def inInt64_def
  asciiSpace_def

subsection \<open>Classification of a token\<close>

lemma Split_nonempty: "Split p sep \<noteq> []"
  by (induction p) (auto split: list.splits)

text \<open>
  Claim C3. The tokens \<^verbatim>\<open>1\<close>, \<^verbatim>\<open>1/2\<close>, \<^verbatim>\<open>1/2/3\<close> and \<^verbatim>\<open>1//3\<close> are classified as
  position only (0), position and uv (1), position, uv and normal (2), position and
  normal (3), and \<^verbatim>\<open>1/2/3/4\<close> is refused (-1). The empty token is not refused: it is
  classified as position only, because \<^verbatim>\<open>strings.Split\<close> never returns an empty slice
  and the test \<^verbatim>\<open>len(v) == 0\<close> that was to refuse it never holds. A token is refused
  exactly when it has more than three segments.
\<close>

theorem getFaceType_empty_token:
  "getFaceType ''1'' = 0 \<and> getFaceType ''1/2'' = 1 \<and> getFaceType ''1/2/3'' = 2
   \<and> getFaceType ''1//3'' = 3 \<and> getFaceType ''1/2/3/4'' = - 1 \<and> getFaceType '''' = 0
   \<and> 1 \<le> length (Split p (CHR ''/''))
   \<and> (getFaceType p = - 1) = (3 < length (Split p (CHR ''/'')))"
proof -
  have ge: "1 \<le> length (Split p (CHR ''/''))"
    using Split_nonempty [of p "CHR ''/''"] by (cases "Split p (CHR ''/'')") simp_all
  have chain: "((if n = 0 then - 1 else if n = 1 then 0 else if n = 2 then 1
                  else if n = 3 then (if b then 2 else 3) else - 1) = (- 1 :: int)) = (3 < n)"
    if "1 \<le> n" for n :: nat and b
    using that by auto
  have "(getFaceType p = - 1) = (3 < length (Split p (CHR ''/'')))"
    unfolding getFaceType_def Let_def by (rule chain [OF ge])
  with ge show ?thesis
    by (simp add: getFaceType_def)
qed

subsection \<open>The number of tokens of a face record\<close>

text \<open>
  Claim C4. A face record with one or two tokens fails with the error "Faces cannot have
  length less than 3", one with more than three tokens with "Only Supports faces with
  length 3", and the state is as before. A face record with no token does not reach these
  tests: \<^verbatim>\<open>parts[0]\<close> is read first, and the loader panics with an index out of range.
\<close>

theorem faceRecord_without_tokens:
  "faceRecord options s [] = Failed IndexOutOfRange s
   \<and> objLine pf fs options s ''f'' = Failed IndexOutOfRange (s\<lparr>lineCounter := lineCounter s + 1\<rparr>)
   \<and> faceRecord options s [p] = Failed (InvalidFormat ''Faces cannot have length less than 3'' [p]) s
   \<and> faceRecord options s [p, q] =
       Failed (InvalidFormat ''Faces cannot have length less than 3'' [p, q]) s
   \<and> faceRecord options s (p # q # r # t # ps) =
       Failed (NotSupported ''Only Supports faces with length 3'' (p # q # r # t # ps)) s"
  by (simp add: faceRecord_def index_go_def objLine_def Fields_def asciiSpace_def Let_def)

subsection \<open>The number of fields of a position record\<close>

text \<open>
  Claim C9. A \<^verbatim>\<open>v\<close> record with more than three fields fails with the error "Vertex
  Position can only have 3 elements", and one with three fields appends the three numbers
  when all three parse and returns the error of the first that does not. One with fewer
  than three fields is not an error the loader returns: \<^verbatim>\<open>parts[:3]\<close> panics with slice
  bounds out of range, whatever the fields are.
\<close>

theorem v_record_with_two_fields:
  "objLine pf fs options s ''v 1 2'' =
     Failed SliceBoundsOutOfRange (s\<lparr>lineCounter := lineCounter s + 1\<rparr>)
   \<and> vec3Fields pf msg [] = Inl SliceBoundsOutOfRange
   \<and> vec3Fields pf msg [a] = Inl SliceBoundsOutOfRange
   \<and> vec3Fields pf msg [a, b] = Inl SliceBoundsOutOfRange
   \<and> vec3Fields pf msg (a # b # c # d # ps) = Inl (InvalidFormat msg (a # b # c # d # ps))
   \<and> vec3Fields pf msg [a, b, c] =
       (case pf a of
          None \<Rightarrow> Inl (ParseFloatError a)
        | Some x \<Rightarrow>
            (case pf b of
               None \<Rightarrow> Inl (ParseFloatError b)
             | Some y \<Rightarrow>
                 (case pf c of None \<Rightarrow> Inl (ParseFloatError c) | Some z \<Rightarrow> Inr (x, y, z))))"
  by (simp add: objLine_def Fields_def asciiSpace_def Let_def vec3Fields_def sliceTo_def
      mkVec3_def index_go_def split: option.splits)

subsection \<open>Malformed index text\<close>

text \<open>
  Claim C5. Malformed integer text in a token is not a failure of the face record. The
  token \<^verbatim>\<open>1x\<close> has the shape of a position-only token; \<^verbatim>\<open>Fscanf\<close> reads the index 1
  from it and stops, and \<^verbatim>\<open>getFaceData\<close> does not look at the error. With one position
  \<open>v\<close> in the array, the record \<^verbatim>\<open>f 1x 1x 1x\<close> is accepted and appends three times the
  position \<open>v\<close> to the bucket. Where the scan fails before it has stored an index, as for
  \<^verbatim>\<open>x\<close> or the second slot of \<^verbatim>\<open>1/x\<close>, the index is the 0 the variable was declared
  with.
\<close>

theorem malformed_index_accepted:
  "getFaceData ''1x'' 0 = [1] \<and> getFaceData ''x'' 0 = [0] \<and> getFaceData ''1/x'' 1 = [1, 0]
   \<and> objLine pf fs \<lparr>NeedNormals = False\<rparr> (s\<lparr>positions := [v]\<rparr>) ''f 1x 1x 1x'' =
       Done (s\<lparr>positions := [v], lineCounter := lineCounter s + 1,
               meshes := appendToMesh (meshes s) 0 (currentMaterial s) (slice3 v @ slice3 v @ slice3 v),
               facesCounter := facesCounter s + 1\<rparr>)"
  by (simp add: objLine_def Fields_def Let_def faceRecord_def index_go_def tokenType_def tokenRefs_def Trim_def getFaceType_def
      faceVertices_def scan_defs uvIdxOf_def nIdxOf_def triangle_def deref3_def deref_def
      vertexAttrs_def slice3_def split: prod.splits)

subsection \<open>A face record of three tokens\<close>

lemma length_getFaceData:
  "0 \<le> vtype \<Longrightarrow> vtype \<le> 3 \<Longrightarrow>
   length (getFaceData p vtype) = (if vtype = 0 then 1 else if vtype = 2 then 3 else 2)"
  by (auto simp: getFaceData_def Let_def)

lemma length_tokenRefs:
  "0 \<le> vtype \<Longrightarrow> vtype \<le> 3 \<Longrightarrow>
   length (tokenRefs vtype p) = (if vtype = 0 then 1 else if vtype = 2 then 3 else 2)"
  by (simp add: tokenRefs_def length_getFaceData)

lemma getFaceType_range: "- 1 \<le> getFaceType p \<and> getFaceType p \<le> 3"
  by (simp add: getFaceType_def Let_def)

lemma tokenType_range: "tokenType p \<noteq> - 1 \<Longrightarrow> 0 \<le> tokenType p \<and> tokenType p \<le> 3"
  using getFaceType_range [of "Trim p ''/''"] by (simp add: tokenType_def)

lemma index_go_pred:
  "index_go arr (i - 1) =
     (if spec_inRange arr i then Inr (spec_element arr i) else Inl IndexOutOfRange)"
  by (auto simp: index_go_def spec_inRange_def spec_element_def nat_diff_distrib)

lemma deref_inside:
  assumes "k < length f"
  shows "deref arr f (int k) =
     (if spec_inRange arr (f ! k) then Inr (spec_element arr (f ! k)) else Inl IndexOutOfRange)"
proof -
  from assms have "index_go f (int k) = Inr (f ! k)"
    by (simp add: index_go_def)
  then show ?thesis
    by (simp add: deref_def index_go_pred)
qed

lemma deref3_inside:
  "k < length f1 \<Longrightarrow> k < length f2 \<Longrightarrow> k < length f3 \<Longrightarrow>
   deref3 arr f1 f2 f3 (int k) =
     (if spec_inRange arr (f1 ! k) \<and> spec_inRange arr (f2 ! k) \<and> spec_inRange arr (f3 ! k)
      then Inr (spec_element arr (f1 ! k), spec_element arr (f2 ! k), spec_element arr (f3 ! k))
      else Inl IndexOutOfRange)"
  by (simp add: deref3_def deref_inside)

lemmas triangle_defs = triangle_def uvIdxOf_def nIdxOf_def spec_refsInRange_def
  spec_triangle_def spec_vertex_def spec_flat_def vertexAttrs_def

lemma triangle_char:
  fixes s :: "('a::{zero,minus,times}) ObjState"
  assumes "0 \<le> vtype" "vtype \<le> 3"
    and "length f1 = (if vtype = 0 then 1 else if vtype = 2 then 3 else 2)"
    and "length f2 = (if vtype = 0 then 1 else if vtype = 2 then 3 else 2)"
    and "length f3 = (if vtype = 0 then 1 else if vtype = 2 then 3 else 2)"
  shows "triangle options s (uvIdxOf vtype) (nIdxOf vtype) f1 f2 f3 =
     (if spec_refsInRange s vtype f1 \<and> spec_refsInRange s vtype f2 \<and> spec_refsInRange s vtype f3
      then Inr (spec_triangle options s vtype f1 f2 f3)
      else Inl IndexOutOfRange)"
proof -
  consider "vtype = 0" | "vtype = 1" | "vtype = 2" | "vtype = 3"
    using assms(1,2) by linarith
  then show ?thesis
  proof cases
    case 1
    with assms show ?thesis
      using deref3_inside [of 0 f1 f2 f3 "positions s"]
      by (simp add: triangle_defs)
  next
    case 2
    with assms show ?thesis
      using deref3_inside [of 0 f1 f2 f3 "positions s"] deref3_inside [of 1 f1 f2 f3 "uvs s"]
      by (simp add: triangle_defs)
  next
    case 3
    with assms show ?thesis
      using deref3_inside [of 0 f1 f2 f3 "positions s"] deref3_inside [of 1 f1 f2 f3 "uvs s"]
        deref3_inside [of 2 f1 f2 f3 "normals s"]
      by (simp add: triangle_defs)
  next
    case 4
    with assms show ?thesis
      using deref3_inside [of 0 f1 f2 f3 "positions s"] deref3_inside [of 1 f1 f2 f3 "normals s"]
      by (simp add: triangle_defs)
  qed
qed

lemma spec_triangle_nonempty: "spec_triangle options s vtype f1 f2 f3 \<noteq> []"
  by (simp add: spec_triangle_def spec_vertex_def slice3_def split: prod.splits)

lemma faceVertices_three:
  fixes s :: "('a::{zero,minus,times}) ObjState"
  assumes "sameEncoding vtype p1 p2 p3"
  shows "faceVertices options s vtype [p1, p2, p3] =
     (if allRefsInRange s vtype p1 p2 p3
      then Inr (spec_triangle options s vtype (tokenRefs vtype p1) (tokenRefs vtype p2)
                  (tokenRefs vtype p3))
      else Inl IndexOutOfRange)"
  using assms
  by (simp add: faceVertices_def sameEncoding_def allRefsInRange_def triangle_char
      length_tokenRefs)

lemma faceRecord_three:
  fixes s :: "('a::{zero,minus,times}) ObjState"
  assumes "sameEncoding vtype p1 p2 p3"
  shows "faceRecord options s [p1, p2, p3] =
     (if allRefsInRange s vtype p1 p2 p3
      then Done (s\<lparr>meshes := appendToMesh (meshes s) vtype (currentMaterial s)
                              (spec_triangle options s vtype (tokenRefs vtype p1)
                                 (tokenRefs vtype p2) (tokenRefs vtype p3)),
                    facesCounter := facesCounter s + 1\<rparr>)
      else Failed IndexOutOfRange s)"
proof -
  from assms have "tokenType p1 = vtype" "vtype \<noteq> - 1"
    by (simp_all add: sameEncoding_def)
  then show ?thesis
    by (simp add: faceRecord_def index_go_def Let_def faceVertices_three [OF assms]
        spec_triangle_nonempty)
qed

lemma faceTokens_Inr:
  "faceTokens vtype parts ps = Inr faces \<Longrightarrow>
   faces = map (tokenRefs vtype) ps \<and> list_all (\<lambda>p. tokenType p = vtype) ps"
  by (induction ps arbitrary: faces) (auto split: if_splits sum.splits)

lemma faceRecord_Cons:
  "faceRecord options s (p # ps) =
     (if length ps < 2
        then Failed (InvalidFormat ''Faces cannot have length less than 3'' (p # ps)) s
      else if length ps \<noteq> 2
        then Failed (NotSupported ''Only Supports faces with length 3'' (p # ps)) s
      else if tokenType p = - 1
        then Failed (InvalidFormat ''Undefined face format'' (p # ps)) s
      else (case faceVertices options s (tokenType p) (p # ps) of
              Inl e \<Rightarrow> Failed e s
            | Inr vertices \<Rightarrow>
                Done (s\<lparr>meshes :=
                          (if vertices \<noteq> []
                           then appendToMesh (meshes s) (tokenType p) (currentMaterial s) vertices
                           else meshes s),
                        facesCounter := facesCounter s + 1\<rparr>)))"
  by (auto simp: faceRecord_def index_go_def Let_def)

lemma faceRecord_Done:
  fixes s :: "('a::{zero,minus,times}) ObjState"
  assumes "faceRecord options s parts = Done s'"
  shows "\<exists>p1 p2 p3. parts = [p1, p2, p3] \<and> sameEncoding (tokenType p1) p1 p2 p3"
proof (cases parts)
  case Nil
  with assms show ?thesis
    by (simp add: faceRecord_def index_go_def)
next
  case (Cons p1 ps)
  with assms have len: "length ps = 2" and ok: "tokenType p1 \<noteq> - 1"
    by (auto simp: faceRecord_Cons split: if_splits)
  from len obtain p2 p3 where ps: "ps = [p2, p3]"
    by (metis (no_types) Suc_length_conv length_0_conv numeral_2_eq_2)
  from assms Cons ps ok obtain vs
    where "faceVertices options s (tokenType p1) [p1, p2, p3] = Inr vs"
    by (auto simp: faceRecord_Cons split: sum.splits)
  then obtain faces where "faceTokens (tokenType p1) [p1, p2, p3] [p1, p2, p3] = Inr faces"
    by (auto simp: faceVertices_def split: sum.splits)
  from faceTokens_Inr [OF this] have "tokenType p2 = tokenType p1" "tokenType p3 = tokenType p1"
    by simp_all
  with Cons ps ok tokenType_range [of p1] show ?thesis
    by (simp add: sameEncoding_def)
qed

lemma appendToMesh_bucket:
  "bucketVertices (appendToMesh ms vtype mat vs) k =
     (if k = meshID vtype mat then bucketVertices ms k @ vs else bucketVertices ms k)"
  by (simp add: appendToMesh_def bucketVertices_def Let_def split: option.splits)


lemma objLine_face:
  "Fields l = ''f'' # ps \<Longrightarrow>
   objLine pf fs options s l = faceRecord options (s\<lparr>lineCounter := lineCounter s + 1\<rparr>) ps"
  by (simp add: objLine_def Let_def)

lemma objLine_usemtl:
  "Fields l = ''usemtl'' # rest \<Longrightarrow>
   objLine pf fs options s l =
     Done (s\<lparr>lineCounter := lineCounter s + 1, currentMaterial := usemtlName rest\<rparr>)"
  by (simp add: objLine_def Let_def)

lemma meshID_material: "(meshID vtype mat = meshID vtype mat') = (mat = mat')"
  by (simp add: meshID_def)

lemma faceVertices_arrays:
  fixes s :: "('a::{zero,minus,times}) ObjState"
  assumes "sameEncoding vtype p1 p2 p3"
    and "positions t = positions s" "normals t = normals s" "uvs t = uvs s"
  shows "faceVertices options t vtype [p1, p2, p3] = faceVertices options s vtype [p1, p2, p3]"
  by (simp add: faceVertices_three [OF assms(1)] assms(2-4) allRefsInRange_def
      spec_refsInRange_def spec_triangle_def spec_vertex_def spec_flat_def)

text \<open>What an accepted face record does to the state.\<close>

lemma faceRecord_effect:
  fixes s :: "('a::{zero,minus,times}) ObjState"
  assumes "faceRecord options s ps = Done s'" and "positions t = positions s"
    "normals t = normals s" "uvs t = uvs s"
  shows "\<exists>vs. faceVertices options t (tokenType (ps ! 0)) ps = Inr vs
     \<and> s' = s\<lparr>meshes := appendToMesh (meshes s) (tokenType (ps ! 0)) (currentMaterial s) vs,
               facesCounter := facesCounter s + 1\<rparr>"
proof -
  from faceRecord_Done [OF assms(1)] obtain p1 p2 p3
    where parts: "ps = [p1, p2, p3]" and enc: "sameEncoding (tokenType p1) p1 p2 p3"
    by blast
  from assms(1) parts have inr: "allRefsInRange s (tokenType p1) p1 p2 p3"
    by (simp add: faceRecord_three [OF enc] split: if_splits)
  have "faceVertices options t (tokenType p1) [p1, p2, p3] =
      faceVertices options s (tokenType p1) [p1, p2, p3]"
    by (rule faceVertices_arrays [OF enc assms(2-4)])
  with inr have eq: "faceVertices options t (tokenType p1) [p1, p2, p3] =
      Inr (spec_triangle options s (tokenType p1) (tokenRefs (tokenType p1) p1)
             (tokenRefs (tokenType p1) p2) (tokenRefs (tokenType p1) p3))"
    by (simp add: faceVertices_three [OF enc])
  from assms(1) parts inr
  have "s' = s\<lparr>meshes := appendToMesh (meshes s) (tokenType p1) (currentMaterial s)
                  (spec_triangle options s (tokenType p1) (tokenRefs (tokenType p1) p1)
                     (tokenRefs (tokenType p1) p2) (tokenRefs (tokenType p1) p3)),
               facesCounter := facesCounter s + 1\<rparr>"
    by (simp add: faceRecord_three [OF enc])
  with eq parts show ?thesis
    by simp
qed

lemma objLine_face_effect:
  fixes s :: "('a::{zero,minus,times}) ObjState"
  assumes "Fields l = ''f'' # ps" and "objLine pf fs options s l = Done s'"
    and "positions t = positions s" "normals t = normals s" "uvs t = uvs s"
  shows "\<exists>vs. faceVertices options t (tokenType (ps ! 0)) ps = Inr vs
     \<and> s' = s\<lparr>lineCounter := lineCounter s + 1,
               meshes := appendToMesh (meshes s) (tokenType (ps ! 0)) (currentMaterial s) vs,
               facesCounter := facesCounter s + 1\<rparr>"
proof -
  from assms(1,2) have "faceRecord options (s\<lparr>lineCounter := lineCounter s + 1\<rparr>) ps = Done s'"
    by (simp add: objLine_face)
  from faceRecord_effect [OF this, where t = t] assms(3-5) show ?thesis
    by simp
qed

lemma appendToMesh_other: "k \<noteq> meshID vtype mat \<Longrightarrow> appendToMesh ms vtype mat vs k = ms k"
  by (simp add: appendToMesh_def Let_def)


lemma bucketsKept_refl: "bucketsKept ms ms"
  by (simp add: bucketsKept_def)

lemma bucketsKept_trans: "bucketsKept a b \<Longrightarrow> bucketsKept b c \<Longrightarrow> bucketsKept a c"
  unfolding bucketsKept_def by (metis append.assoc)

lemma appendToMesh_kept: "bucketsKept ms (appendToMesh ms vtype mat vs)"
  by (auto simp: bucketsKept_def appendToMesh_def Let_def)

lemma faceRecord_kept:
  fixes s :: "('a::{zero,minus,times}) ObjState"
  shows "bucketsKept (meshes s) (meshes (outcomeState (faceRecord options s ps)))"
  by (simp add: faceRecord_def outcomeState_def Let_def bucketsKept_refl appendToMesh_kept
      split: sum.splits)

lemma faceRecord_Failed_state:
  fixes s :: "('a::{zero,minus,times}) ObjState"
  shows "faceRecord options s ps = Failed e s' \<Longrightarrow> s' = s"
  by (simp add: faceRecord_def Let_def split: sum.splits if_splits)

lemma meshID_pair:
  assumes "0 \<le> vt" "vt \<le> 3" "0 \<le> vt'" "vt' \<le> 3"
  shows "(meshID vt mat = meshID vt' mat') = (vt = vt' \<and> mat = mat')"
proof -
  have v: "vt = 0 \<or> vt = 1 \<or> vt = 2 \<or> vt = 3" and v': "vt' = 0 \<or> vt' = 1 \<or> vt' = 2 \<or> vt' = 3"
    using assms by auto
  have s: "showInt 0 = ''0''" "showInt 1 = ''1''" "showInt 2 = ''2''" "showInt 3 = ''3''"
    by (simp_all add: showInt_def showNat.simps)
  from v v' show ?thesis
    by (auto simp: meshID_def s)
qed

text \<open>The keys of the material map are never removed.\<close>

lemma assignField_keys:
  "k \<in> dom (snd st) \<Longrightarrow> k \<in> dom (snd (outcomeState (assignField upd st)))"
  by (auto simp: assignField_def outcomeState_def split: option.splits)

lemma scalarField_keys:
  "k \<in> dom (snd st) \<Longrightarrow> k \<in> dom (snd (outcomeState (scalarField pf key upd parts st)))"
  using assignField_keys [of k st]
  by (auto simp: scalarField_def outcomeState_def split: option.splits)

lemma vectorField_keys:
  "k \<in> dom (snd st) \<Longrightarrow> k \<in> dom (snd (outcomeState (vectorField pf key upd parts st)))"
  using assignField_keys [of k st]
  by (auto simp: vectorField_def outcomeState_def split: sum.splits)

lemma mtlLine_keys:
  assumes "k \<in> dom (snd st)"
  shows "k \<in> dom (snd (outcomeState (mtlLine pf st l)))"
proof (cases "Fields l")
  case Nil
  with assms show ?thesis
    by (simp add: mtlLine_def outcomeState_def)
next
  case (Cons key parts)
  have branch: "k \<in> dom (snd (outcomeState (if c then a else b)))"
    if "k \<in> dom (snd (outcomeState a))" "k \<in> dom (snd (outcomeState b))"
    for c and a b :: "'a MtlState outcome"
    using that by simp
  have other: "k \<in> dom (snd (outcomeState (Done st)))"
    using assms by (simp add: outcomeState_def)
  have new: "k \<in> dom (snd (outcomeState
      (case index_go parts 0 of
         Inl e \<Rightarrow> Failed e st
       | Inr name \<Rightarrow> Done (Some (newMaterial name), (snd st)(name \<mapsto> newMaterial name)))))"
    using assms by (auto simp: outcomeState_def split: sum.splits)
  have illum: "k \<in> dom (snd (outcomeState
      (if length parts < 1 then Failed (InvalidFormat (mustHave key ''1'') parts) st
       else (case Atoi (parts ! 0) of
               None \<Rightarrow> Failed (AtoiError (parts ! 0)) st
             | Some num \<Rightarrow> assignField (\<lambda>mat. mat\<lparr>Illum := word_of_int num\<rparr>) st))))"
    using assms assignField_keys [OF assms]
    by (auto simp: outcomeState_def split: option.splits)
  show ?thesis
    unfolding mtlLine_def Cons list.case
    by (intro branch other new illum scalarField_keys [OF assms] vectorField_keys [OF assms])
qed

lemma mtlLines_keys:
  "k \<in> dom (snd st) \<Longrightarrow> k \<in> dom (snd (outcomeState (mtlLines pf st ls)))"
proof (induction ls arbitrary: st)
  case Nil
  then show ?case by (simp add: outcomeState_def)
next
  case (Cons l ls)
  show ?case
  proof (cases "mtlLine pf st l")
    case (Done st')
    with mtlLine_keys [OF Cons.prems, of pf l] have "k \<in> dom (snd st')"
      by (simp add: outcomeState_def)
    from Cons.IH [OF this] Done show ?thesis by simp
  next
    case (Failed e st')
    with mtlLine_keys [OF Cons.prems, of pf l] show ?thesis
      by (simp add: outcomeState_def)
  qed
qed

lemma LoadMtl_keys:
  assumes "k \<in> dom mats"
  shows "k \<in> dom (outcomeState (LoadMtl pf fs filePath mats))"
proof (cases "fs filePath")
  case None
  with assms show ?thesis
    by (simp add: LoadMtl_def outcomeState_def)
next
  case (Some f)
  from assms have "k \<in> dom (snd (None, mats))"
    by simp
  from mtlLines_keys [OF this, of pf "fst f"] Some show ?thesis
    by (auto simp: LoadMtl_def outcomeState_def split: outcome.splits)
qed

lemma loadLibraries_keys:
  "k \<in> dom mats \<Longrightarrow> k \<in> dom (outcomeState (loadLibraries pf fs paths mats))"
proof (induction paths arbitrary: mats)
  case Nil
  then show ?case by (simp add: outcomeState_def)
next
  case (Cons p paths)
  show ?case
  proof (cases "LoadMtl pf fs p mats")
    case (Done mats')
    with LoadMtl_keys [OF Cons.prems, of pf fs p] have "k \<in> dom mats'"
      by (simp add: outcomeState_def)
    from Cons.IH [OF this] Done show ?thesis by simp
  next
    case (Failed e mats')
    with LoadMtl_keys [OF Cons.prems, of pf fs p] show ?thesis
      by (simp add: outcomeState_def)
  qed
qed

text \<open>What a line can do to the two maps: nothing; or what a face record does; or, to
  the material map, what the loading of libraries does.\<close>

lemma objLine_rule:
  fixes s :: "('a::{zero,minus,times}) ObjState"
  assumes same: "\<And>r. meshes (outcomeState r) = meshes s \<Longrightarrow>
                     materials (outcomeState r) = materials s \<Longrightarrow> Q r"
    and face: "\<And>parts. Q (faceRecord options (s\<lparr>lineCounter := lineCounter s + 1\<rparr>) parts)"
    and libs: "\<And>r parts. meshes (outcomeState r) = meshes s \<Longrightarrow>
                 materials (outcomeState r) = outcomeState (loadLibraries pf fs parts (materials s)) \<Longrightarrow>
                 Q r"
  shows "Q (objLine pf fs options s l)"
proof (cases "Fields l")
  case Nil
  then show ?thesis
    by (simp add: objLine_def outcomeState_def same)
next
  case (Cons key parts)
  let ?s = "s\<lparr>lineCounter := lineCounter s + 1\<rparr>"
  have branch: "Q (if c then a else b)" if "Q a" "Q b" for c a b
    using that by simp
  have plain: "Q (Done ?s)"
    by (rule same) (simp_all add: outcomeState_def)
  have v: "Q (case vec3Fields pf msg parts of
               Inl e \<Rightarrow> Failed e ?s
             | Inr v \<Rightarrow> Done (?s\<lparr>positions := positions ?s @ [v]\<rparr>))" for msg
    by (rule same) (simp_all add: outcomeState_def split: sum.splits)
  have vn: "Q (case vec3Fields pf msg parts of
               Inl e \<Rightarrow> Failed e ?s
             | Inr n \<Rightarrow> Done (?s\<lparr>normals := normals ?s @ [n]\<rparr>))" for msg
    by (rule same) (simp_all add: outcomeState_def split: sum.splits)
  have vt: "Q (case vec2Fields pf msg parts of
               Inl e \<Rightarrow> Failed e ?s
             | Inr uv \<Rightarrow> Done (?s\<lparr>uvs := uvs ?s @ [uv]\<rparr>))" for msg
    by (rule same) (simp_all add: outcomeState_def split: sum.splits)
  have usemtl: "Q (Done (?s\<lparr>currentMaterial := usemtlName parts\<rparr>))"
    by (rule same) (simp_all add: outcomeState_def)
  have lib: "Q (case loadLibraries pf fs parts (materials ?s) of
               Failed e mats \<Rightarrow> Failed e (?s\<lparr>materials := mats\<rparr>)
             | Done mats \<Rightarrow> Done (?s\<lparr>materials := mats\<rparr>))"
    by (rule libs [of _ parts]) (simp_all add: outcomeState_def split: outcome.splits)
  have other: "Q (Done (if key \<in> nsMap ?s then ?s else ?s\<lparr>nsMap := insert key (nsMap ?s)\<rparr>))"
    by (rule same) (simp_all add: outcomeState_def)
  show ?thesis
    unfolding objLine_def Let_def Cons list.case
    by (intro branch plain v vn vt face usemtl lib other)
qed

lemma objLine_Failed_meshes:
  fixes s :: "('a::{zero,minus,times}) ObjState"
  shows "objLine pf fs options s l = Failed e s' \<Longrightarrow> meshes s' = meshes s"
proof -
  have "\<forall>e s'. objLine pf fs options s l = Failed e s' \<longrightarrow> meshes s' = meshes s"
  proof (rule objLine_rule)
    fix r :: "'a ObjState outcome"
    assume "meshes (outcomeState r) = meshes s"
    then show "\<forall>e s'. r = Failed e s' \<longrightarrow> meshes s' = meshes s"
      by (auto simp: outcomeState_def)
  next
    fix parts
    show "\<forall>e s'. faceRecord options (s\<lparr>lineCounter := lineCounter s + 1\<rparr>) parts = Failed e s'
        \<longrightarrow> meshes s' = meshes s"
      using faceRecord_Failed_state [of options "s\<lparr>lineCounter := lineCounter s + 1\<rparr>" parts]
      by auto
  next
    fix r :: "'a ObjState outcome"
    assume "meshes (outcomeState r) = meshes s"
    then show "\<forall>e s'. r = Failed e s' \<longrightarrow> meshes s' = meshes s"
      by (auto simp: outcomeState_def)
  qed
  then show "objLine pf fs options s l = Failed e s' \<Longrightarrow> meshes s' = meshes s"
    by blast
qed

lemma faceRecord_materials:
  fixes s :: "('a::{zero,minus,times}) ObjState"
  shows "materials (outcomeState (faceRecord options s ps)) = materials s"
  by (simp add: faceRecord_def outcomeState_def Let_def split: sum.splits)

lemma objLine_keys:
  fixes s :: "('a::{zero,minus,times}) ObjState"
  assumes "k \<in> dom (materials s)"
  shows "k \<in> dom (materials (outcomeState (objLine pf fs options s l)))"
proof (rule objLine_rule)
  fix r :: "'a ObjState outcome"
  assume "materials (outcomeState r) = materials s"
  with assms show "k \<in> dom (materials (outcomeState r))"
    by simp
next
  fix parts
  show "k \<in> dom (materials (outcomeState
      (faceRecord options (s\<lparr>lineCounter := lineCounter s + 1\<rparr>) parts)))"
    using assms by (simp add: faceRecord_materials)
next
  fix r :: "'a ObjState outcome" and parts
  assume "materials (outcomeState r) = outcomeState (loadLibraries pf fs parts (materials s))"
  with loadLibraries_keys [OF assms, of pf fs parts] show "k \<in> dom (materials (outcomeState r))"
    by simp
qed

lemma objLines_keys:
  fixes s :: "('a::{zero,minus,times}) ObjState"
  assumes "k \<in> dom (materials s)"
  shows "k \<in> dom (materials (outcomeState (objLines pf fs options s ls)))"
  using assms
proof (induction ls arbitrary: s)
  case Nil
  then show ?case by (simp add: outcomeState_def)
next
  case (Cons l ls)
  show ?case
  proof (cases "objLine pf fs options s l")
    case (Done s')
    with objLine_keys [OF Cons.prems, of pf fs options l] have "k \<in> dom (materials s')"
      by (simp add: outcomeState_def)
    from Cons.IH [OF this] Done show ?thesis by simp
  next
    case (Failed e s')
    with objLine_keys [OF Cons.prems, of pf fs options l] show ?thesis
      by (simp add: outcomeState_def)
  qed
qed

text \<open>A run that fails has read some lines without failure and failed on the next.\<close>

lemma objLines_Failed:
  fixes s :: "('a::{zero,minus,times}) ObjState"
  assumes "objLines pf fs options s ls = Failed e s'"
  shows "\<exists>n s1. n < length ls \<and> objLines pf fs options s (take n ls) = Done s1
           \<and> objLine pf fs options s1 (ls ! n) = Failed e s'"
  using assms
proof (induction ls arbitrary: s)
  case Nil
  then show ?case by simp
next
  case (Cons l ls)
  show ?case
  proof (cases "objLine pf fs options s l")
    case (Done t)
    with Cons.prems have "objLines pf fs options t ls = Failed e s'"
      by simp
    from Cons.IH [OF this] obtain n s1 where "n < length ls"
      "objLines pf fs options t (take n ls) = Done s1" "objLine pf fs options s1 (ls ! n) = Failed e s'"
      by blast
    with Done have "Suc n < length (l # ls) \<and> objLines pf fs options s (take (Suc n) (l # ls)) = Done s1
           \<and> objLine pf fs options s1 ((l # ls) ! Suc n) = Failed e s'"
      by simp
    then show ?thesis by blast
  next
    case (Failed e' t)
    with Cons.prems have "0 < length (l # ls) \<and> objLines pf fs options s (take 0 (l # ls)) = Done s
           \<and> objLine pf fs options s ((l # ls) ! 0) = Failed e s'"
      by simp
    then show ?thesis by blast
  qed
qed

lemma objLine_kept:
  fixes s :: "('a::{zero,minus,times}) ObjState"
  shows "bucketsKept (meshes s) (meshes (outcomeState (objLine pf fs options s l)))"
proof (rule objLine_rule)
  fix r :: "'a ObjState outcome"
  assume "meshes (outcomeState r) = meshes s"
  then show "bucketsKept (meshes s) (meshes (outcomeState r))"
    by (simp add: bucketsKept_refl)
next
  fix parts
  show "bucketsKept (meshes s)
      (meshes (outcomeState (faceRecord options (s\<lparr>lineCounter := lineCounter s + 1\<rparr>) parts)))"
    using faceRecord_kept [of "s\<lparr>lineCounter := lineCounter s + 1\<rparr>" options parts] by simp
next
  fix r :: "'a ObjState outcome"
  assume "meshes (outcomeState r) = meshes s"
  then show "bucketsKept (meshes s) (meshes (outcomeState r))"
    by (simp add: bucketsKept_refl)
qed

lemma objLines_kept:
  fixes s :: "('a::{zero,minus,times}) ObjState"
  shows "bucketsKept (meshes s) (meshes (outcomeState (objLines pf fs options s ls)))"
proof (induction ls arbitrary: s)
  case Nil
  then show ?case
    by (simp add: outcomeState_def bucketsKept_refl)
next
  case (Cons l ls)
  show ?case
  proof (cases "objLine pf fs options s l")
    case (Done s')
    with objLine_kept [of s pf fs options l] have "bucketsKept (meshes s) (meshes s')"
      by (simp add: outcomeState_def)
    with Cons.IH [of s'] Done show ?thesis
      by (auto intro: bucketsKept_trans)
  next
    case (Failed e s')
    with objLine_kept [of s pf fs options l] show ?thesis
      by (simp add: outcomeState_def)
  qed
qed


subsection \<open>Tokens written in decimal\<close>

lemma digit_at: "k < 10 \<Longrightarrow> isDigit (''0123456789'' ! k)"
  unfolding isDigit_def by (rule nth_mem) simp

lemma digit_value: "k < 10 \<Longrightarrow> of_char (''0123456789'' ! k) - 48 = k"
proof -
  assume "k < 10"
  then have "k = 0 \<or> k = 1 \<or> k = 2 \<or> k = 3 \<or> k = 4 \<or> k = 5 \<or> k = 6 \<or> k = 7 \<or> k = 8 \<or> k = 9"
    by arith
  then show ?thesis
    by (elim disjE) simp_all
qed

lemma showNat_digits: "list_all isDigit (showNat n) \<and> showNat n \<noteq> []"
proof (induction n rule: showNat.induct)
  case (1 n)
  show ?case
  proof (cases "n < 10")
    case True
    then show ?thesis
      by (simp add: showNat.simps [of n] digit_at)
  next
    case False
    with 1 show ?thesis
      by (simp add: showNat.simps [of n] digit_at)
  qed
qed

lemma decVal_snoc: "decVal (ds @ [c]) = 10 * decVal ds + (of_char c - 48)"
  by (simp add: decVal_def)

lemma decVal_showNat: "decVal (showNat n) = n"
proof (induction n rule: showNat.induct)
  case (1 n)
  show ?case
  proof (cases "n < 10")
    case True
    then show ?thesis
      by (simp add: showNat.simps [of n] decVal_def digit_value)
  next
    case False
    with 1 show ?thesis
      by (simp add: showNat.simps [of n] decVal_snoc digit_value)
  qed
qed

lemma isDigit_plain:
  "isDigit c \<Longrightarrow> \<not> asciiSpace c \<and> c \<noteq> CHR 0x0A \<and> c \<noteq> CHR ''+'' \<and> c \<noteq> CHR ''-'' \<and> c \<noteq> CHR ''/''"
  by (auto simp: isDigit_def asciiSpace_def)

text \<open>The scanner reads a number written by \<open>showNat\<close> back, up to a byte that is not a
  digit.\<close>

lemma scanInt_showNat:
  assumes "n < 2 ^ 63" and "rest = [] \<or> \<not> isDigit (hd rest)"
  shows "scanInt (showNat n @ rest) = Some (int n, rest)"
proof -
  from showNat_digits [of n] obtain d ds where ds: "showNat n = d # ds" and d: "isDigit d"
    and all: "list_all isDigit (d # ds)"
    by (cases "showNat n") auto
  from isDigit_plain [OF d] have skip: "SkipSpace (showNat n @ rest) = Some (showNat n @ rest)"
    by (simp add: ds)
  from isDigit_plain [OF d] have sign: "take 1 (showNat n @ rest) \<noteq> ''+''"
    "take 1 (showNat n @ rest) \<noteq> ''-''"
    by (simp_all add: ds)
  from assms(2) all have tw: "takeWhile isDigit (showNat n @ rest) = showNat n"
    and dw: "dropWhile isDigit (showNat n @ rest) = rest"
    by (cases rest; simp add: ds list_all_iff takeWhile_append2 dropWhile_append2)+
  from assms(1) have "inInt64 (int (decVal (showNat n)))"
    by (simp add: inInt64_def decVal_showNat)
  with skip sign tw dw showNat_digits [of n] show ?thesis
    by (simp add: scanInt_def Let_def decVal_showNat)
qed

lemma SkipSpace_showNat: "SkipSpace (showNat n @ rest) = Some (showNat n @ rest)"
proof -
  from showNat_digits [of n] obtain d ds where ds: "showNat n = d # ds" and d: "isDigit d"
    by (cases "showNat n") auto
  from isDigit_plain [OF d] show ?thesis
    by (simp add: ds)
qed

lemma Split_plain: "sep \<notin> set xs \<Longrightarrow> Split xs sep = [xs]"
  by (induction xs) auto

lemma Split_append: "sep \<notin> set xs \<Longrightarrow> Split (xs @ sep # ys) sep = xs # Split ys sep"
  by (induction xs) auto

lemma showNat_no_slash: "CHR ''/'' \<notin> set (showNat n)"
  using showNat_digits [of n] isDigit_plain by (auto simp: list_all_iff)

lemma Trim_inside:
  assumes "xs \<noteq> []" "hd xs \<notin> set cutset" "last xs \<notin> set cutset"
  shows "Trim xs cutset = xs"
proof -
  from assms(1,2) have "dropWhile (\<lambda>c. c \<in> set cutset) xs = xs"
    by (cases xs) simp_all
  moreover from assms(1,3) have "dropWhile (\<lambda>c. c \<in> set cutset) (rev xs) = rev xs"
    by (cases "rev xs") (simp_all add: last_rev [symmetric] hd_rev)
  ultimately show ?thesis
    by (simp add: Trim_def)
qed

lemma hd_last_showNat:
  "hd (showNat n @ rest) \<noteq> CHR ''/''" "last (rest @ showNat n) \<noteq> CHR ''/''"
proof -
  from showNat_digits [of n] have ne: "showNat n \<noteq> []" and all: "list_all isDigit (showNat n)"
    by simp_all
  from ne all have "isDigit (hd (showNat n))" "isDigit (last (showNat n))"
    by (simp_all add: list_all_iff)
  with ne isDigit_plain show "hd (showNat n @ rest) \<noteq> CHR ''/''"
    "last (rest @ showNat n) \<noteq> CHR ''/''"
    by auto
qed

lemma doScanf_showNat:
  assumes "n < 2 ^ 63" and "rest = [] \<or> \<not> isDigit (hd rest)"
  shows "doScanf (Verb_d # fmt) (showNat n @ rest) = int n # doScanf fmt rest"
  by (simp add: SkipSpace_showNat scanInt_showNat [OF assms])

text \<open>The four shapes of a token, written with decimal numbers: its encoding and the
  references the loader decodes from it.\<close>

lemma decimal_tokens:
  assumes "a < 2 ^ 63" "b < 2 ^ 63" "c < 2 ^ 63"
  shows "tokenType (showNat a) = 0 \<and> tokenRefs 0 (showNat a) = [int a]"
    and "tokenType (showNat a @ ''/'' @ showNat b) = 1
         \<and> tokenRefs 1 (showNat a @ ''/'' @ showNat b) = [int a, int b]"
    and "tokenType (showNat a @ ''/'' @ showNat b @ ''/'' @ showNat c) = 2
         \<and> tokenRefs 2 (showNat a @ ''/'' @ showNat b @ ''/'' @ showNat c) = [int a, int b, int c]"
    and "tokenType (showNat a @ ''//'' @ showNat c) = 3
         \<and> tokenRefs 3 (showNat a @ ''//'' @ showNat c) = [int a, int c]"
proof -
  note ns = showNat_no_slash
  have ne: "showNat n \<noteq> []" for n
    using showNat_digits [of n] by simp
  have slash: "\<not> isDigit (CHR ''/'')"
    by (simp add: isDigit_def)
  have trim: "Trim (showNat a @ rest @ showNat n) ''/'' = showNat a @ rest @ showNat n" for rest n
    using hd_last_showNat(1) [where n = a and rest = "rest @ showNat n"]
      hd_last_showNat(2) [where n = n and rest = "showNat a @ rest"]
    by (intro Trim_inside) (simp_all add: ne)
  have trim1: "Trim (showNat a) ''/'' = showNat a"
    using hd_last_showNat(1) [where n = a and rest = "[]"]
      hd_last_showNat(2) [where n = a and rest = "[]"]
    by (intro Trim_inside) (simp_all add: ne)
  have one: "doScanf [Verb_d] (showNat n) = [int n]" if "n < 2 ^ 63" for n
    using doScanf_showNat [OF that, of "[]" "[]"] by simp
  note scan = doScanf_showNat [OF assms(1)] doScanf_showNat [OF assms(2)] slash
    one [OF assms(1)] one [OF assms(2)] one [OF assms(3)]
  show "tokenType (showNat a) = 0 \<and> tokenRefs 0 (showNat a) = [int a]"
    by (simp del: doScanf.simps(3) add: tokenType_def tokenRefs_def trim1 getFaceType_def
        Split_plain [OF ns] getFaceData_def scan operand_def Let_def)
  have "Trim (showNat a @ ''/'' @ showNat b) ''/'' = showNat a @ ''/'' @ showNat b"
    by (rule trim)
  moreover have "Split (showNat a @ ''/'' @ showNat b) (CHR ''/'') = [showNat a, showNat b]"
    by (simp add: Split_append [OF ns] Split_plain [OF ns])
  moreover have "doScanf [Verb_d, Lit (CHR ''/''), Verb_d] (showNat a @ ''/'' @ showNat b) =
      [int a, int b]"
    by (simp del: doScanf.simps(3) add: scan)
  ultimately show "tokenType (showNat a @ ''/'' @ showNat b) = 1
         \<and> tokenRefs 1 (showNat a @ ''/'' @ showNat b) = [int a, int b]"
    by (simp del: doScanf.simps(3) add: tokenType_def tokenRefs_def getFaceType_def
        getFaceData_def operand_def Let_def)
  have "Trim (showNat a @ (''/'' @ showNat b @ ''/'') @ showNat c) ''/'' =
      showNat a @ (''/'' @ showNat b @ ''/'') @ showNat c"
    by (rule trim)
  moreover have "Split (showNat a @ ''/'' @ showNat b @ ''/'' @ showNat c) (CHR ''/'') =
      [showNat a, showNat b, showNat c]"
    by (simp add: Split_append [OF ns] Split_plain [OF ns])
  moreover have "doScanf [Verb_d, Lit (CHR ''/''), Verb_d, Lit (CHR ''/''), Verb_d]
      (showNat a @ ''/'' @ showNat b @ ''/'' @ showNat c) = [int a, int b, int c]"
    by (simp del: doScanf.simps(3) add: scan)
  ultimately show "tokenType (showNat a @ ''/'' @ showNat b @ ''/'' @ showNat c) = 2
         \<and> tokenRefs 2 (showNat a @ ''/'' @ showNat b @ ''/'' @ showNat c) = [int a, int b, int c]"
    by (simp del: doScanf.simps(3) add: tokenType_def tokenRefs_def getFaceType_def
        getFaceData_def operand_def ne Let_def)
  have "Trim (showNat a @ ''//'' @ showNat c) ''/'' = showNat a @ ''//'' @ showNat c"
    by (rule trim)
  moreover have "Split (showNat a @ ''//'' @ showNat c) (CHR ''/'') = [showNat a, [], showNat c]"
    by (simp add: Split_append [OF ns] Split_plain [OF ns])
  moreover have "doScanf [Verb_d, Lit (CHR ''/''), Lit (CHR ''/''), Verb_d]
      (showNat a @ ''//'' @ showNat c) = [int a, int c]"
    by (simp del: doScanf.simps(3) add: scan)
  ultimately show "tokenType (showNat a @ ''//'' @ showNat c) = 3
         \<and> tokenRefs 3 (showNat a @ ''//'' @ showNat c) = [int a, int c]"
    by (simp del: doScanf.simps(3) add: tokenType_def tokenRefs_def getFaceType_def
        getFaceData_def operand_def Let_def)
qed

lemmas token_defs = tokenType_def tokenRefs_def Trim_def getFaceType_def scan_defs

lemmas sample_defs = allRefsInRange_def spec_refsInRange_def spec_inRange_def sampleState_def
  spec_triangle_def spec_vertex_def spec_element_def spec_flat_def slice3_def slice2_def
  appendToMesh_def meshID_def showInt_def showNat.simps

subsection \<open>Resolution of the index references\<close>

text \<open>
  Claim C1. The loader resolves the reference at offset \<open>k\<close> of a decoded token against
  an array with \<^verbatim>\<open>arr[f[k]-1]\<close>: a reference \<open>i\<close> with \<open>1 \<le> i \<le> length\<close> gives the
  \<open>(i-1)\<close>-th element of the array as it is when the record is processed, and any other
  reference is the panic for an index out of range. For a face record of three tokens of
  one encoding: when every reference the encoding carries (position; uv; normal) is in
  range of its array, the record is accepted and the vertex data is made of the elements
  referenced; when one is not, the record fails with the index out of range and the
  state, buckets included, is as it was. The references of a token are what the loader
  decodes from it; for a token written with decimal numbers in one of the four shapes
  they are these numbers.
\<close>

theorem face_index_resolution:
  fixes s :: "('a::{zero,minus,times}) ObjState"
  assumes "sameEncoding vtype p1 p2 p3"
  shows "(\<forall>k < length f. deref arr f (int k) =
            (if 1 \<le> f ! k \<and> f ! k \<le> int (length arr) then Inr (arr ! (nat (f ! k) - 1))
             else Inl IndexOutOfRange))
     \<and> faceRecord options s [p1, p2, p3] =
         (if allRefsInRange s vtype p1 p2 p3
          then Done (s\<lparr>meshes := appendToMesh (meshes s) vtype (currentMaterial s)
                                  (spec_triangle options s vtype (tokenRefs vtype p1)
                                     (tokenRefs vtype p2) (tokenRefs vtype p3)),
                        facesCounter := facesCounter s + 1\<rparr>)
          else Failed IndexOutOfRange s)
     \<and> (a < 2 ^ 63 \<and> b < 2 ^ 63 \<and> c < 2 ^ 63 \<longrightarrow>
          tokenType (showNat a) = 0 \<and> tokenRefs 0 (showNat a) = [int a]
          \<and> tokenType (showNat a @ ''/'' @ showNat b) = 1
          \<and> tokenRefs 1 (showNat a @ ''/'' @ showNat b) = [int a, int b]
          \<and> tokenType (showNat a @ ''/'' @ showNat b @ ''/'' @ showNat c) = 2
          \<and> tokenRefs 2 (showNat a @ ''/'' @ showNat b @ ''/'' @ showNat c) =
              [int a, int b, int c]
          \<and> tokenType (showNat a @ ''//'' @ showNat c) = 3
          \<and> tokenRefs 3 (showNat a @ ''//'' @ showNat c) = [int a, int c])"
proof -
  have "deref arr f (int k) =
          (if 1 \<le> f ! k \<and> f ! k \<le> int (length arr) then Inr (arr ! (nat (f ! k) - 1))
           else Inl IndexOutOfRange)" if "k < length f" for k
    using deref_inside [OF that, of arr] by (simp add: spec_inRange_def spec_element_def)
  then show ?thesis
    using decimal_tokens [of a b c] by (simp add: faceRecord_three [OF assms])
qed

text \<open>With the sample state: the record \<^verbatim>\<open>f 1/2/1 2/1/1 3/2/1\<close> is accepted and emits the
  positions 1, 2, 3 with the uvs 2, 1, 2; with the uv reference 0, or the position
  reference 4 of three positions, it fails.\<close>

theorem face_index_resolution_witness:
  "faceRecord \<lparr>NeedNormals = False\<rparr> sampleState [''1/2/1'', ''2/1/1'', ''3/2/1''] =
     Done (sampleState\<lparr>meshes := [''mesh-vtype2-materialdefault'' \<mapsto>
                \<lparr>Vertices = [0, 0, 0, 1, 1, 1, 0, 0, 0, 0, 0, 1, 0, 1, 1], Vtype = 2,
                 MaterialName = ''default''\<rparr>],
              facesCounter := 1\<rparr>)
   \<and> faceRecord \<lparr>NeedNormals = False\<rparr> sampleState [''1/2/1'', ''2/0/1'', ''3/2/1''] =
       Failed IndexOutOfRange sampleState
   \<and> faceRecord \<lparr>NeedNormals = False\<rparr> sampleState [''1/2/1'', ''2/1/1'', ''4/2/1''] =
       Failed IndexOutOfRange sampleState"
proof -
  have enc: "sameEncoding 2 ''1/2/1'' ''2/1/1'' ''3/2/1''" "sameEncoding 2 ''1/2/1'' ''2/0/1'' ''3/2/1''"
    "sameEncoding 2 ''1/2/1'' ''2/1/1'' ''4/2/1''"
    by (simp_all add: sameEncoding_def token_defs)
  show ?thesis
    using face_index_resolution [OF enc(1), of "[]" "[]" "\<lparr>NeedNormals = False\<rparr>" sampleState 0 0 0]
      face_index_resolution [OF enc(2), of "[]" "[]" "\<lparr>NeedNormals = False\<rparr>" sampleState 0 0 0]
      face_index_resolution [OF enc(3), of "[]" "[]" "\<lparr>NeedNormals = False\<rparr>" sampleState 0 0 0]
    by (simp add: token_defs sample_defs)
qed

subsection \<open>Normal references when no normals are asked for\<close>

text \<open>
  Claim C10. For a face record whose encoding carries normal references (\<^verbatim>\<open>v/vt/vn\<close> or
  \<^verbatim>\<open>v//vn\<close>), the normal references are resolved against the normal array whatever the
  option is: when the normal reference of one of the three tokens is out of range, the
  record fails with the index out of range, also with \<^verbatim>\<open>NeedNormals\<close> false, although a
  vertex then has no normal among its attributes.
\<close>

theorem normal_refs_checked_without_normals:
  fixes s :: "('a::{zero,minus,times}) ObjState"
  assumes "sameEncoding vtype p1 p2 p3"
    and "vtype = 2 \<or> vtype = 3"
    and "list_ex (\<lambda>p. \<not> spec_inRange (normals s) (tokenRefs vtype p ! nat (nIdxOf vtype)))
           [p1, p2, p3]"
  shows "faceRecord \<lparr>NeedNormals = False\<rparr> s [p1, p2, p3] = Failed IndexOutOfRange s
     \<and> faceRecord options s [p1, p2, p3] = Failed IndexOutOfRange s
     \<and> vertexAttrs \<lparr>NeedNormals = False\<rparr> uvIdx v uv n =
         slice3 v @ (if uvIdx \<noteq> - 1 then slice2 uv else [])"
proof -
  from assms(2,3) have "\<not> allRefsInRange s vtype p1 p2 p3"
    by (auto simp: allRefsInRange_def spec_refsInRange_def nIdxOf_def)
  then show ?thesis
    by (simp add: faceRecord_three [OF assms(1)] vertexAttrs_def)
qed

text \<open>With the sample state, which has one normal: the record \<^verbatim>\<open>f 1//1 2//2 3//1\<close>
  fails with \<^verbatim>\<open>NeedNormals\<close> false, and \<^verbatim>\<open>f 1//1 2//1 3//1\<close> emits the three positions
  only.\<close>

theorem normal_refs_checked_without_normals_witness:
  "faceRecord \<lparr>NeedNormals = False\<rparr> sampleState [''1//1'', ''2//2'', ''3//1''] =
     Failed IndexOutOfRange sampleState
   \<and> faceRecord \<lparr>NeedNormals = False\<rparr> sampleState [''1//1'', ''2//1'', ''3//1''] =
     Done (sampleState\<lparr>meshes := [''mesh-vtype3-materialdefault'' \<mapsto>
                \<lparr>Vertices = [0, 0, 0, 1, 0, 0, 0, 1, 0], Vtype = 3,
                 MaterialName = ''default''\<rparr>],
              facesCounter := 1\<rparr>)"
proof -
  have enc: "sameEncoding 3 ''1//1'' ''2//2'' ''3//1''" "sameEncoding 3 ''1//1'' ''2//1'' ''3//1''"
    by (simp_all add: sameEncoding_def token_defs)
  have bad: "list_ex (\<lambda>p. \<not> spec_inRange (normals sampleState) (tokenRefs 3 p ! nat (nIdxOf 3)))
           [''1//1'', ''2//2'', ''3//1'']"
    by (simp add: token_defs sample_defs nIdxOf_def)
  show ?thesis
    using normal_refs_checked_without_normals [OF enc(1) _ bad, THEN conjunct1]
    by (simp add: faceRecord_three [OF enc(2)] token_defs sample_defs)
qed

subsection \<open>The flat normal\<close>

text \<open>
  Claim C6. For a face record whose encoding carries no normal reference (\<^verbatim>\<open>v\<close> or
  \<^verbatim>\<open>v/vt\<close>), with \<^verbatim>\<open>NeedNormals\<close> true and every reference in range, each of the three
  vertices gets, after its position and its uv, the same normal: the cross product of the
  edges \<open>vb - va\<close> and \<open>vc - va\<close>, not normalised. With the positions \<open>(0,0,0)\<close>,
  \<open>(1,0,0)\<close>, \<open>(0,1,0)\<close> and the record \<^verbatim>\<open>f 1 2 3\<close> that normal is \<open>(0,0,1)\<close>. The
  arithmetic is that of the type of the coordinates; the six facts about 0 and 1 that the
  example needs are premises (they hold for \<^verbatim>\<open>float32\<close>, where these operations are
  exact).
\<close>

theorem flat_normal_synthesized:
  fixes s :: "('a::{zero,one,minus,times}) ObjState"
  assumes enc: "sameEncoding vtype p1 p2 p3" "vtype = 0 \<or> vtype = 1"
    and opt: "NeedNormals options"
    and inr: "allRefsInRange s vtype p1 p2 p3"
    and arith: "(1::'a) - 0 = 1" "(0::'a) - 0 = 0" "(0::'a) * 0 = 0" "(0::'a) * 1 = 0"
      "(1::'a) * 0 = 0" "(1::'a) * 1 = 1"
  shows "(let va = spec_element (positions s) (tokenRefs vtype p1 ! 0);
              vb = spec_element (positions s) (tokenRefs vtype p2 ! 0);
              vc = spec_element (positions s) (tokenRefs vtype p3 ! 0);
              uv = (\<lambda>p. if vtype = 1 then slice2 (spec_element (uvs s) (tokenRefs vtype p ! 1))
                         else []);
              n = flatNormal va vb vc
          in faceVertices options s vtype [p1, p2, p3] =
               Inr (slice3 va @ uv p1 @ slice3 n @ slice3 vb @ uv p2 @ slice3 n
                    @ slice3 vc @ uv p3 @ slice3 n))
     \<and> flatNormal (a0, a1, a2) (b0, b1, b2) (c0, c1, c2) =
         ((b1 - a1) * (c2 - a2) - (b2 - a2) * (c1 - a1),
          (b2 - a2) * (c0 - a0) - (b0 - a0) * (c2 - a2),
          (b0 - a0) * (c1 - a1) - (b1 - a1) * (c0 - a0) :: 'a)
     \<and> faceRecord \<lparr>NeedNormals = True\<rparr> (s\<lparr>positions := [(0, 0, 0), (1, 0, 0), (0, 1, 0)]\<rparr>)
           [''1'', ''2'', ''3''] =
         Done (s\<lparr>positions := [(0, 0, 0), (1, 0, 0), (0, 1, 0)],
                 meshes := appendToMesh (meshes s) 0 (currentMaterial s)
                   [0, 0, 0, 0, 0, 1, 1, 0, 0, 0, 0, 1, 0, 1, 0, 0, 0, 1],
                 facesCounter := facesCounter s + 1\<rparr>)"
proof -
  have general: "faceVertices options s vtype [p1, p2, p3] =
      Inr (spec_triangle options s vtype (tokenRefs vtype p1) (tokenRefs vtype p2) (tokenRefs vtype p3))"
    by (simp add: faceVertices_three [OF enc(1)] inr)
  have e: "sameEncoding 0 ''1'' ''2'' ''3''"
    by (simp add: sameEncoding_def token_defs)
  have r: "allRefsInRange (s\<lparr>positions := [(0, 0, 0), (1, 0, 0), (0, 1, 0)]\<rparr>) 0 ''1'' ''2'' ''3''"
    by (simp add: allRefsInRange_def spec_refsInRange_def spec_inRange_def token_defs)
  have concrete: "faceRecord \<lparr>NeedNormals = True\<rparr> (s\<lparr>positions := [(0, 0, 0), (1, 0, 0), (0, 1, 0)]\<rparr>)
           [''1'', ''2'', ''3''] =
         Done (s\<lparr>positions := [(0, 0, 0), (1, 0, 0), (0, 1, 0)],
                 meshes := appendToMesh (meshes s) 0 (currentMaterial s)
                   [0, 0, 0, 0, 0, 1, 1, 0, 0, 0, 0, 1, 0, 1, 0, 0, 0, 1],
                 facesCounter := facesCounter s + 1\<rparr>)"
    by (simp add: faceRecord_three [OF e] r spec_triangle_def spec_vertex_def spec_flat_def
        spec_element_def token_defs slice3_def arith)
  from enc(2) opt show ?thesis
    by (auto simp: general concrete Let_def spec_triangle_def spec_vertex_def spec_flat_def)
qed

text \<open>Over the integers, with the sample state: the record \<^verbatim>\<open>f 3/1 2/2 1/1\<close> gets the
  normal \<open>(0,0,-1)\<close> three times, and \<^verbatim>\<open>f 1 2 3\<close> the normal \<open>(0,0,1)\<close>.\<close>

theorem flat_normal_synthesized_witness:
  "faceVertices \<lparr>NeedNormals = True\<rparr> sampleState 1 [''3/1'', ''2/2'', ''1/1''] =
     Inr [0, 1, 0, 0, 0, 0, 0, - 1, 1, 0, 0, 1, 1, 0, 0, - 1, 0, 0, 0, 0, 0, 0, 0, - 1]
   \<and> faceRecord \<lparr>NeedNormals = True\<rparr> sampleState [''1'', ''2'', ''3''] =
     Done (sampleState\<lparr>meshes := [''mesh-vtype0-materialdefault'' \<mapsto>
                \<lparr>Vertices = [0, 0, 0, 0, 0, 1, 1, 0, 0, 0, 0, 1, 0, 1, 0, 0, 0, 1], Vtype = 0,
                 MaterialName = ''default''\<rparr>],
              facesCounter := 1\<rparr>)"
proof -
  have enc: "sameEncoding 1 ''3/1'' ''2/2'' ''1/1''"
    by (simp add: sameEncoding_def token_defs)
  have inr: "allRefsInRange sampleState 1 ''3/1'' ''2/2'' ''1/1''"
    by (simp add: token_defs sample_defs)
  note inst = flat_normal_synthesized [OF enc _ _ inr, of "\<lparr>NeedNormals = True\<rparr>"]
  show ?thesis
    using inst [THEN conjunct1] inst [THEN conjunct2, THEN conjunct2]
    by (simp add: token_defs sample_defs Let_def)
qed

subsection \<open>The layout of the vertex data\<close>

text \<open>
  Claim C7, as stated, fails: the normal is appended to a vertex only under
  \<^verbatim>\<open>if options.NeedNormals\<close>, so with the option false a record whose tokens carry
  normal references emits no normal. With the sample state the record
  \<^verbatim>\<open>f 1/1/1 2/2/1 3/1/1\<close> emits five numbers a vertex (position, uv) when the option is
  false, and eight (position, uv, the normal \<open>(5,6,7)\<close>) when it is true.
\<close>

theorem normals_dropped_counterexample:
  "faceRecord \<lparr>NeedNormals = False\<rparr> sampleState [''1/1/1'', ''2/2/1'', ''3/1/1''] =
     Done (sampleState\<lparr>meshes := [''mesh-vtype2-materialdefault'' \<mapsto>
                \<lparr>Vertices = [0, 0, 0, 0, 0, 1, 0, 0, 1, 1, 0, 1, 0, 0, 0], Vtype = 2,
                 MaterialName = ''default''\<rparr>],
              facesCounter := 1\<rparr>)
   \<and> faceRecord \<lparr>NeedNormals = True\<rparr> sampleState [''1/1/1'', ''2/2/1'', ''3/1/1''] =
     Done (sampleState\<lparr>meshes := [''mesh-vtype2-materialdefault'' \<mapsto>
                \<lparr>Vertices = [0, 0, 0, 0, 0, 5, 6, 7, 1, 0, 0, 1, 1, 5, 6, 7, 0, 1, 0, 0, 0, 5, 6, 7],
                 Vtype = 2, MaterialName = ''default''\<rparr>],
              facesCounter := 1\<rparr>)"
proof -
  have enc: "sameEncoding 2 ''1/1/1'' ''2/2/1'' ''3/1/1''"
    by (simp add: sameEncoding_def token_defs)
  show ?thesis
    by (simp add: faceRecord_three [OF enc] token_defs sample_defs)
qed

text \<open>
  Claim C7, amended. For every accepted face record, the data appended to the bucket of
  its encoding and the current material is that of the three vertices in the order of
  the tokens, each with its position, then its uv when the encoding carries a uv
  reference, then a normal exactly when \<^verbatim>\<open>NeedNormals\<close> is true: the referenced normal
  when the encoding carries normal references, the flat normal of the triangle
  otherwise. With \<^verbatim>\<open>NeedNormals\<close> false no vertex has a normal.
\<close>

theorem face_vertex_layout:
  fixes s :: "('a::{zero,minus,times}) ObjState"
  assumes "faceRecord options s parts = Done s'"
  shows "(let vtype = tokenType (parts ! 0);
              f1 = tokenRefs vtype (parts ! 0);
              f2 = tokenRefs vtype (parts ! 1);
              f3 = tokenRefs vtype (parts ! 2);
              flat = spec_flat s f1 f2 f3;
              k = meshID vtype (currentMaterial s)
          in length parts = 3
             \<and> sameEncoding vtype (parts ! 0) (parts ! 1) (parts ! 2)
             \<and> allRefsInRange s vtype (parts ! 0) (parts ! 1) (parts ! 2)
             \<and> bucketVertices (meshes s') k =
                 bucketVertices (meshes s) k
                 @ spec_vertex options s vtype flat f1
                 @ spec_vertex options s vtype flat f2
                 @ spec_vertex options s vtype flat f3)
     \<and> (spec_vertex options s vt n f =
         slice3 (spec_element (positions s) (f ! 0))
         @ (if vt = 1 \<or> vt = 2 then slice2 (spec_element (uvs s) (f ! 1)) else [])
         @ (if NeedNormals options
            then slice3 (if vt = 2 then spec_element (normals s) (f ! 2)
                         else if vt = 3 then spec_element (normals s) (f ! 1)
                         else n)
            else []))"
proof -
  from faceRecord_Done [OF assms] obtain p1 p2 p3
    where parts: "parts = [p1, p2, p3]" and enc: "sameEncoding (tokenType p1) p1 p2 p3"
    by blast
  from assms parts have inr: "allRefsInRange s (tokenType p1) p1 p2 p3"
    by (simp add: faceRecord_three [OF enc] split: if_splits)
  from assms parts inr have "s' = s\<lparr>meshes := appendToMesh (meshes s) (tokenType p1) (currentMaterial s)
                              (spec_triangle options s (tokenType p1) (tokenRefs (tokenType p1) p1)
                                 (tokenRefs (tokenType p1) p2) (tokenRefs (tokenType p1) p3)),
                    facesCounter := facesCounter s + 1\<rparr>"
    by (simp add: faceRecord_three [OF enc])
  with parts enc inr show ?thesis
    by (simp add: Let_def appendToMesh_bucket spec_triangle_def spec_vertex_def)
qed

text \<open>With the sample state and \<^verbatim>\<open>NeedNormals\<close> false, the record
  \<^verbatim>\<open>f 1/1/1 2/2/1 3/1/1\<close> is accepted and its bucket, empty before, holds the three
  positions, each followed by its uv.\<close>

theorem face_vertex_layout_witness:
  "faceRecord \<lparr>NeedNormals = False\<rparr> sampleState [''1/1/1'', ''2/2/1'', ''3/1/1''] =
     Done (sampleState\<lparr>meshes := [''mesh-vtype2-materialdefault'' \<mapsto>
                \<lparr>Vertices = [0, 0, 0, 0, 0, 1, 0, 0, 1, 1, 0, 1, 0, 0, 0], Vtype = 2,
                 MaterialName = ''default''\<rparr>],
              facesCounter := 1\<rparr>)
   \<and> bucketVertices [''mesh-vtype2-materialdefault'' \<mapsto>
        \<lparr>Vertices = [0, 0, 0, 0, 0, 1, 0, 0, 1, 1, 0, 1, 0, 0, 0 :: int], Vtype = 2,
         MaterialName = ''default''\<rparr>] ''mesh-vtype2-materialdefault'' =
     bucketVertices (meshes sampleState) ''mesh-vtype2-materialdefault''
     @ [0, 0, 0, 0, 0] @ [1, 0, 0, 1, 1] @ [0, 1, 0, 0, 0]"
proof -
  have enc: "sameEncoding 2 ''1/1/1'' ''2/2/1'' ''3/1/1''"
    by (simp add: sameEncoding_def token_defs)
  have run: "faceRecord \<lparr>NeedNormals = False\<rparr> sampleState [''1/1/1'', ''2/2/1'', ''3/1/1''] =
     Done (sampleState\<lparr>meshes := [''mesh-vtype2-materialdefault'' \<mapsto>
                \<lparr>Vertices = [0, 0, 0, 0, 0, 1, 0, 0, 1, 1, 0, 1, 0, 0, 0], Vtype = 2,
                 MaterialName = ''default''\<rparr>],
              facesCounter := 1\<rparr>)"
    by (simp add: faceRecord_three [OF enc] token_defs sample_defs)
  show ?thesis
    using run face_vertex_layout [OF run, THEN conjunct1]
    by (simp add: Let_def token_defs sample_defs bucketVertices_def)
qed

subsection \<open>Buckets\<close>

text \<open>
  Claim C8. A bucket is the entry of the mesh map under the identifier made of the
  encoding and the current material, and two pairs of an encoding and a material have
  the same identifier only when they are the same pair. Let \<open>l1\<close> and \<open>l2\<close> be two accepted
  face records of one encoding. When \<open>l2\<close> comes right after \<open>l1\<close>, the bucket of the
  encoding and the current material holds afterwards what it held, then the vertex data
  of \<open>l1\<close>, then that of \<open>l2\<close>, and no other entry of the map has changed. When a
  \<^verbatim>\<open>usemtl\<close> record that changes the material comes between them, the data of \<open>l2\<close> goes
  to another bucket, that of the encoding and the new material, and the first bucket has
  the data of \<open>l1\<close> only. Whatever the lines of a run are, a bucket that exists stays
  under its key with its encoding and material, and its data is only added to at the
  end: buckets are not merged.
\<close>

theorem buckets_by_encoding_and_material:
  fixes s :: "('a::{zero,minus,times}) ObjState"
  assumes l1: "Fields l1 = ''f'' # ps1" and l2: "Fields l2 = ''f'' # ps2"
    and u: "Fields u = ''usemtl'' # rest"
    and enc: "tokenType (ps1 ! 0) = vtype" "tokenType (ps2 ! 0) = vtype"
    and r1: "objLine pf fs options s l1 = Done s1"
    and r2: "objLine pf fs options s1 l2 = Done s2"
    and ru: "objLine pf fs options s1 u = Done t1"
    and r3: "objLine pf fs options t1 l2 = Done t2"
    and change: "usemtlName rest \<noteq> currentMaterial s"
  shows "(\<exists>vs1 vs2. faceVertices options s vtype ps1 = Inr vs1
       \<and> faceVertices options s vtype ps2 = Inr vs2
       \<and> (let k = meshID vtype (currentMaterial s); k' = meshID vtype (usemtlName rest)
          in bucketVertices (meshes s2) k = bucketVertices (meshes s) k @ vs1 @ vs2
             \<and> (\<forall>j. j \<noteq> k \<longrightarrow> meshes s2 j = meshes s j)
             \<and> k' \<noteq> k
             \<and> bucketVertices (meshes t2) k = bucketVertices (meshes s) k @ vs1
             \<and> bucketVertices (meshes t2) k' = bucketVertices (meshes s) k' @ vs2
             \<and> (\<forall>j. j \<noteq> k \<and> j \<noteq> k' \<longrightarrow> meshes t2 j = meshes s j)))
     \<and> (0 \<le> vt \<and> vt \<le> 3 \<and> 0 \<le> vt' \<and> vt' \<le> 3 \<longrightarrow>
          (meshID vt mat = meshID vt' mat') = (vt = vt' \<and> mat = mat'))
     \<and> bucketsKept (meshes s) (meshes (outcomeState (objLines pf fs options s ls)))"
proof -
  from objLine_face_effect [OF l1 r1, where t = s] enc obtain vs1
    where v1: "faceVertices options s vtype ps1 = Inr vs1"
      and s1: "s1 = s\<lparr>lineCounter := lineCounter s + 1,
               meshes := appendToMesh (meshes s) vtype (currentMaterial s) vs1,
               facesCounter := facesCounter s + 1\<rparr>"
    by auto
  from objLine_face_effect [OF l2 r2, where t = s] enc s1 obtain vs2
    where v2: "faceVertices options s vtype ps2 = Inr vs2"
      and s2: "s2 = s1\<lparr>lineCounter := lineCounter s1 + 1,
               meshes := appendToMesh (meshes s1) vtype (currentMaterial s1) vs2,
               facesCounter := facesCounter s1 + 1\<rparr>"
    by auto
  from ru have t1: "t1 = s1\<lparr>lineCounter := lineCounter s1 + 1, currentMaterial := usemtlName rest\<rparr>"
    by (simp add: objLine_usemtl [OF u])
  from objLine_face_effect [OF l2 r3, where t = s] enc s1 t1 v2
  have t2: "t2 = t1\<lparr>lineCounter := lineCounter t1 + 1,
               meshes := appendToMesh (meshes t1) vtype (currentMaterial t1) vs2,
               facesCounter := facesCounter t1 + 1\<rparr>"
    by auto
  from change have ne: "meshID vtype (usemtlName rest) \<noteq> meshID vtype (currentMaterial s)"
    by (simp add: meshID_material)
  have "bucketVertices (meshes s2) (meshID vtype (currentMaterial s)) =
      bucketVertices (meshes s) (meshID vtype (currentMaterial s)) @ vs1 @ vs2"
    by (simp add: s2 s1 appendToMesh_bucket)
  moreover have "\<forall>j. j \<noteq> meshID vtype (currentMaterial s) \<longrightarrow> meshes s2 j = meshes s j"
    by (simp add: s2 s1 appendToMesh_other)
  moreover have "bucketVertices (meshes t2) (meshID vtype (currentMaterial s)) =
      bucketVertices (meshes s) (meshID vtype (currentMaterial s)) @ vs1"
    using ne by (simp add: t2 t1 s1 appendToMesh_bucket)
  moreover have "bucketVertices (meshes t2) (meshID vtype (usemtlName rest)) =
      bucketVertices (meshes s) (meshID vtype (usemtlName rest)) @ vs2"
    using ne by (simp add: t2 t1 s1 appendToMesh_bucket)
  moreover have "\<forall>j. j \<noteq> meshID vtype (currentMaterial s) \<and> j \<noteq> meshID vtype (usemtlName rest)
      \<longrightarrow> meshes t2 j = meshes s j"
    by (simp add: t2 t1 s1 appendToMesh_other)
  ultimately have "\<exists>vs1 vs2. faceVertices options s vtype ps1 = Inr vs1
       \<and> faceVertices options s vtype ps2 = Inr vs2
       \<and> (let k = meshID vtype (currentMaterial s); k' = meshID vtype (usemtlName rest)
          in bucketVertices (meshes s2) k = bucketVertices (meshes s) k @ vs1 @ vs2
             \<and> (\<forall>j. j \<noteq> k \<longrightarrow> meshes s2 j = meshes s j)
             \<and> k' \<noteq> k
             \<and> bucketVertices (meshes t2) k = bucketVertices (meshes s) k @ vs1
             \<and> bucketVertices (meshes t2) k' = bucketVertices (meshes s) k' @ vs2
             \<and> (\<forall>j. j \<noteq> k \<and> j \<noteq> k' \<longrightarrow> meshes t2 j = meshes s j))"
    using v1 v2 ne by (simp add: Let_def)
  then show ?thesis
    using meshID_pair [of vt vt' mat mat'] objLines_kept [of s pf fs options ls] by blast
qed

text \<open>With the sample state: \<^verbatim>\<open>f 1 2 3\<close> then \<^verbatim>\<open>f 3 2 1\<close> fill one bucket in this
  order; with \<^verbatim>\<open>usemtl wood\<close> between them, the second record fills the bucket of the
  material \<^verbatim>\<open>wood\<close>.\<close>

theorem buckets_by_encoding_and_material_witness:
  "bucketVertices
     (meshes (outcomeState (objLines (\<lambda>v. None) (\<lambda>p. None) \<lparr>NeedNormals = False\<rparr> sampleState
        [''f 1 2 3'', ''f 3 2 1''])))
     ''mesh-vtype0-materialdefault'' = [0, 0, 0, 1, 0, 0, 0, 1, 0] @ [0, 1, 0, 1, 0, 0, 0, 0, 0]
   \<and> bucketVertices
     (meshes (outcomeState (objLines (\<lambda>v. None) (\<lambda>p. None) \<lparr>NeedNormals = False\<rparr> sampleState
        [''f 1 2 3'', ''usemtl wood'', ''f 3 2 1''])))
     ''mesh-vtype0-materialdefault'' = [0, 0, 0, 1, 0, 0, 0, 1, 0]
   \<and> bucketVertices
     (meshes (outcomeState (objLines (\<lambda>v. None) (\<lambda>p. None) \<lparr>NeedNormals = False\<rparr> sampleState
        [''f 1 2 3'', ''usemtl wood'', ''f 3 2 1''])))
     ''mesh-vtype0-materialwood'' = [0, 1, 0, 1, 0, 0, 0, 0, 0]"
proof -
  let ?run = "objLine (\<lambda>v. None) (\<lambda>p. None) \<lparr>NeedNormals = False\<rparr>"
  define s1 where "s1 = outcomeState (?run sampleState ''f 1 2 3'')"
  define s2 where "s2 = outcomeState (?run s1 ''f 3 2 1'')"
  define t1 where "t1 = outcomeState (?run s1 ''usemtl wood'')"
  define t2 where "t2 = outcomeState (?run t1 ''f 3 2 1'')"
  have l: "Fields ''f 1 2 3'' = ''f'' # [''1'', ''2'', ''3'']"
    "Fields ''f 3 2 1'' = ''f'' # [''3'', ''2'', ''1'']"
    "Fields ''usemtl wood'' = ''usemtl'' # [''wood'']"
    by (simp_all add: Fields_def asciiSpace_def)
  have e: "sameEncoding 0 ''1'' ''2'' ''3''" "sameEncoding 0 ''3'' ''2'' ''1''"
    by (simp_all add: sameEncoding_def token_defs)
  have r1: "?run sampleState ''f 1 2 3'' = Done s1"
    by (simp add: s1_def objLine_face [OF l(1)] faceRecord_three [OF e(1)] outcomeState_def
        token_defs sample_defs)
  have s1: "s1 = sampleState\<lparr>lineCounter := 1, meshes := [''mesh-vtype0-materialdefault'' \<mapsto>
       \<lparr>Vertices = [0, 0, 0, 1, 0, 0, 0, 1, 0], Vtype = 0, MaterialName = ''default''\<rparr>],
       facesCounter := 1\<rparr>"
    by (simp add: s1_def objLine_face [OF l(1)] faceRecord_three [OF e(1)] outcomeState_def
        token_defs sample_defs)
  have r2: "?run s1 ''f 3 2 1'' = Done s2"
    by (simp add: s2_def s1 objLine_face [OF l(2)] faceRecord_three [OF e(2)] outcomeState_def
        token_defs sample_defs)
  have ru: "?run s1 ''usemtl wood'' = Done t1"
    by (simp add: t1_def objLine_usemtl [OF l(3)] outcomeState_def)
  have t1: "t1 = s1\<lparr>lineCounter := 2, currentMaterial := ''wood''\<rparr>"
    by (simp add: t1_def s1 objLine_usemtl [OF l(3)] outcomeState_def usemtlName_def sampleState_def)
  have r3: "?run t1 ''f 3 2 1'' = Done t2"
    by (simp add: t2_def t1 s1 objLine_face [OF l(2)] faceRecord_three [OF e(2)] outcomeState_def
        token_defs sample_defs)
  have v: "faceVertices \<lparr>NeedNormals = False\<rparr> sampleState 0 [''1'', ''2'', ''3''] =
        Inr [0, 0, 0, 1, 0, 0, 0, 1, 0]"
    "faceVertices \<lparr>NeedNormals = False\<rparr> sampleState 0 [''3'', ''2'', ''1''] =
        Inr [0, 1, 0, 1, 0, 0, 0, 0, 0]"
    by (simp_all add: faceVertices_three [OF e(1)] faceVertices_three [OF e(2)] token_defs sample_defs)
  have runs: "objLines (\<lambda>v. None) (\<lambda>p. None) \<lparr>NeedNormals = False\<rparr> sampleState
        [''f 1 2 3'', ''f 3 2 1''] = Done s2"
    "objLines (\<lambda>v. None) (\<lambda>p. None) \<lparr>NeedNormals = False\<rparr> sampleState
        [''f 1 2 3'', ''usemtl wood'', ''f 3 2 1''] = Done t2"
    by (simp_all add: r1 r2 ru r3)
  have init: "currentMaterial sampleState = ''default''"
    "bucketVertices (meshes sampleState) k = []" for k
    by (simp_all add: sampleState_def bucketVertices_def)
  have enc: "tokenType ([''1'', ''2'', ''3''] ! 0) = 0" "tokenType ([''3'', ''2'', ''1''] ! 0) = 0"
    by (simp_all add: token_defs)
  from buckets_by_encoding_and_material [OF l(1) l(2) l(3) enc r1 r2 ru r3, THEN conjunct1]
  have "bucketVertices (meshes s2) ''mesh-vtype0-materialdefault'' =
          [0, 0, 0, 1, 0, 0, 0, 1, 0] @ [0, 1, 0, 1, 0, 0, 0, 0, 0]
      \<and> bucketVertices (meshes t2) ''mesh-vtype0-materialdefault'' = [0, 0, 0, 1, 0, 0, 0, 1, 0]
      \<and> bucketVertices (meshes t2) ''mesh-vtype0-materialwood'' = [0, 1, 0, 1, 0, 0, 0, 0, 0]"
    by (simp add: v init Let_def usemtlName_def meshID_def showInt_def showNat.simps)
  then show ?thesis
    unfolding runs outcomeState_def by simp
qed

subsection \<open>A run that fails\<close>

lemmas line_defs = objLine_def Fields_def asciiSpace_def Let_def vec3Fields_def vec2Fields_def
  sliceTo_def mkVec3_def mkVec2_def index_go_def sampleFloat_def Atoi_def isDigit_def decVal_def
  inInt64_def

text \<open>The sample geometry file: three positions and a face, then a material library
  whose second line fails, then a face that is not reached.\<close>

lemma sample_run_fails:
  "LoadObj sampleFloat sampleFiles ''a.obj'' Map.empty Map.empty \<lparr>NeedNormals = False\<rparr> =
     Failed (InvalidFormat (mustHave ''Kd'' ''3'') [''1''])
       ([''mesh-vtype0-materialdefault'' \<mapsto>
           \<lparr>Vertices = [0, 0, 0, 1, 0, 0, 0, 1, 0], Vtype = 0, MaterialName = ''default''\<rparr>],
        [''wood'' \<mapsto> newMaterial ''wood''])"
proof -
  let ?line = "objLine sampleFloat sampleFiles \<lparr>NeedNormals = False\<rparr>"
  let ?s0 = "initState Map.empty Map.empty :: int ObjState"
  let ?s1 = "?s0\<lparr>positions := [(0, 0, 0)], lineCounter := 1\<rparr>"
  let ?s2 = "?s0\<lparr>positions := [(0, 0, 0), (1, 0, 0)], lineCounter := 2\<rparr>"
  let ?s3 = "?s0\<lparr>positions := [(0, 0, 0), (1, 0, 0), (0, 1, 0)], lineCounter := 3\<rparr>"
  let ?s4 = "?s3\<lparr>lineCounter := 4, meshes := [''mesh-vtype0-materialdefault'' \<mapsto>
           \<lparr>Vertices = [0, 0, 0, 1, 0, 0, 0, 1, 0], Vtype = 0, MaterialName = ''default''\<rparr>],
           facesCounter := 1\<rparr>"
  have 1: "?line ?s0 ''v 0 0 0'' = Done ?s1"
    by (simp add: line_defs initState_def)
  have 2: "?line ?s1 ''v 1 0 0'' = Done ?s2"
    by (simp add: line_defs initState_def)
  have 3: "?line ?s2 ''v 0 1 0'' = Done ?s3"
    by (simp add: line_defs initState_def)
  have f: "Fields ''f 1 2 3'' = ''f'' # [''1'', ''2'', ''3'']"
    by (simp add: Fields_def asciiSpace_def)
  have e: "sameEncoding 0 ''1'' ''2'' ''3''"
    by (simp add: sameEncoding_def token_defs)
  have 4: "?line ?s3 ''f 1 2 3'' = Done ?s4"
    by (simp add: objLine_face [OF f] faceRecord_three [OF e] token_defs initState_def
        allRefsInRange_def spec_refsInRange_def spec_inRange_def
        spec_triangle_def spec_vertex_def spec_element_def spec_flat_def slice3_def slice2_def
        appendToMesh_def meshID_def showInt_def showNat.simps)
  have lib: "LoadMtl sampleFloat sampleFiles ''m.mtl'' (Map.empty :: int MaterialMap) =
      Failed (InvalidFormat (mustHave ''Kd'' ''3'') [''1'']) [''wood'' \<mapsto> newMaterial ''wood'']"
    by (simp add: LoadMtl_def sampleFiles_def mtlLine_def Fields_def asciiSpace_def index_go_def
        vectorField_def)
  have 5: "?line ?s4 ''mtllib m.mtl'' =
      Failed (InvalidFormat (mustHave ''Kd'' ''3'') [''1''])
        (?s4\<lparr>lineCounter := 5, materials := [''wood'' \<mapsto> newMaterial ''wood'']\<rparr>)"
    by (simp add: objLine_def Fields_def asciiSpace_def Let_def lib initState_def)
  have "objLines sampleFloat sampleFiles \<lparr>NeedNormals = False\<rparr> ?s0
      [''v 0 0 0'', ''v 1 0 0'', ''v 0 1 0'', ''f 1 2 3'', ''mtllib m.mtl'', ''f 3 2 1''] =
      Failed (InvalidFormat (mustHave ''Kd'' ''3'') [''1''])
        (?s4\<lparr>lineCounter := 5, materials := [''wood'' \<mapsto> newMaterial ''wood'']\<rparr>)"
    unfolding objLines.simps 1 2 3 4 5 outcome.case ..
  then show ?thesis
    by (simp add: LoadObj_def sampleFiles_def initState_def)
qed

text \<open>
  Claim C2, as stated, fails: the loader writes into the maps of the caller as it goes
  and undoes nothing when it fails. The run on the sample file returns the error of the
  library's line \<^verbatim>\<open>Kd 1\<close>, and the maps, empty before, hold the bucket of the face read
  before the failure and the material \<^verbatim>\<open>wood\<close> that the library had registered.
\<close>

theorem partial_result_kept_counterexample:
  "LoadObj sampleFloat sampleFiles ''a.obj'' Map.empty Map.empty \<lparr>NeedNormals = False\<rparr> =
     Failed (InvalidFormat (mustHave ''Kd'' ''3'') [''1''])
       ([''mesh-vtype0-materialdefault'' \<mapsto>
           \<lparr>Vertices = [0, 0, 0, 1, 0, 0, 0, 1, 0], Vtype = 0, MaterialName = ''default''\<rparr>],
        [''wood'' \<mapsto> newMaterial ''wood''])"
  by (rule sample_run_fails)

text \<open>
  Claim C2, amended. When \<^verbatim>\<open>LoadObj\<close> fails, the maps of the caller are not restored;
  they are exactly what the run had written when it stopped. One of three cases holds.
  The file could not be opened: the error is the open error and both maps are untouched.
  Or a line failed: the lines before it were read without failure, that line returned the
  error of the call, the mesh map is exactly the one the lines before it left (the failing
  line changes no bucket), and the material map is exactly the one the failing line left
  (a failing \<^verbatim>\<open>mtllib\<close> line may have registered materials before it failed), with at least
  the materials of the lines before it. Or every line was read without failure and the
  scanner reported a read error: both maps are exactly what the whole file left. In each
  case every bucket and every material the caller had before the call is still there, a
  bucket with its data extended at most.
\<close>

theorem failure_keeps_what_was_written:
  fixes ms :: "('a::{zero,minus,times}) MeshMap"
  assumes "LoadObj pf fs filePath ms mats options = Failed e (ms', mats')"
  shows "((fs filePath = None \<and> e = OpenError filePath \<and> ms' = ms \<and> mats' = mats)
          \<or> (\<exists>f n s1 s2. fs filePath = Some f \<and> n < length (fst f)
                \<and> objLines pf fs options (initState ms mats) (take n (fst f)) = Done s1
                \<and> objLine pf fs options s1 (fst f ! n) = Failed e s2
                \<and> ms' = meshes s1 \<and> mats' = materials s2
                \<and> dom (materials s1) \<subseteq> dom mats')
          \<or> (\<exists>f s. fs filePath = Some f \<and> snd f \<and> e = ReadError
                \<and> objLines pf fs options (initState ms mats) (fst f) = Done s
                \<and> ms' = meshes s \<and> mats' = materials s))
     \<and> bucketsKept ms ms' \<and> dom mats \<subseteq> dom mats'"
proof (cases "fs filePath")
  case None
  with assms show ?thesis
    by (simp add: LoadObj_def bucketsKept_refl)
next
  case (Some f)
  let ?s0 = "initState ms mats"
  let ?r = "objLines pf fs options ?s0 (fst f)"
  from assms Some have final: "ms' = meshes (outcomeState ?r)" "mats' = materials (outcomeState ?r)"
    by (auto simp: LoadObj_def outcomeState_def split: outcome.splits if_splits)
  have kept: "bucketsKept ms ms'"
    using objLines_kept [of ?s0 pf fs options "fst f"] by (simp add: final initState_def)
  have keys: "dom mats \<subseteq> dom mats'"
    using objLines_keys [of _ ?s0 pf fs options "fst f"] by (auto simp: final initState_def)
  have "(\<exists>n s1 s2. n < length (fst f)
                \<and> objLines pf fs options ?s0 (take n (fst f)) = Done s1
                \<and> objLine pf fs options s1 (fst f ! n) = Failed e s2
                \<and> ms' = meshes s1 \<and> mats' = materials s2
                \<and> dom (materials s1) \<subseteq> dom mats')
          \<or> (\<exists>s. snd f \<and> e = ReadError \<and> ?r = Done s
                \<and> ms' = meshes s \<and> mats' = materials s)"
  proof (cases ?r)
    case (Done s)
    with assms Some have "snd f \<and> e = ReadError"
      by (auto simp: LoadObj_def split: if_splits)
    with Done have "snd f \<and> e = ReadError \<and> ?r = Done s
                \<and> ms' = meshes s \<and> mats' = materials s"
      by (simp add: final outcomeState_def)
    then show ?thesis by blast
  next
    case (Failed e' s)
    with assms Some have e: "e' = e"
      by (simp add: LoadObj_def)
    from objLines_Failed [OF Failed] obtain n s1 where n: "n < length (fst f)"
      and pre: "objLines pf fs options ?s0 (take n (fst f)) = Done s1"
      and bad: "objLine pf fs options s1 (fst f ! n) = Failed e' s"
      by blast
    from objLine_Failed_meshes [OF bad] Failed have m: "ms' = meshes s1"
      by (simp add: final outcomeState_def)
    from Failed have t: "mats' = materials s"
      by (simp add: final outcomeState_def)
    have "dom (materials s1) \<subseteq> dom mats'"
      using objLine_keys [of _ s1 pf fs options "fst f ! n"] bad Failed
      by (auto simp: final outcomeState_def)
    with n pre bad m t e have "n < length (fst f)
                \<and> objLines pf fs options ?s0 (take n (fst f)) = Done s1
                \<and> objLine pf fs options s1 (fst f ! n) = Failed e s
                \<and> ms' = meshes s1 \<and> mats' = materials s
                \<and> dom (materials s1) \<subseteq> dom mats'"
      by simp
    then show ?thesis by blast
  qed
  with Some kept keys show ?thesis
    by blast
qed

text \<open>On the sample file: the library's line fails after the face was read; the mesh map
  returned is the one the lines before the failing line left, with the bucket of the face,
  and the material map is the one the failing line left, with the material it had
  registered.\<close>

theorem failure_keeps_what_was_written_witness:
  "bucketsKept (Map.empty :: int MeshMap)
     [''mesh-vtype0-materialdefault'' \<mapsto>
        \<lparr>Vertices = [0, 0, 0, 1, 0, 0, 0, 1, 0], Vtype = 0, MaterialName = ''default''\<rparr>]
   \<and> (\<exists>n s1 s2. n < 6
         \<and> objLines sampleFloat sampleFiles \<lparr>NeedNormals = False\<rparr> (initState Map.empty Map.empty)
             (take n [''v 0 0 0'', ''v 1 0 0'', ''v 0 1 0'', ''f 1 2 3'', ''mtllib m.mtl'',
                      ''f 3 2 1'']) = Done s1
         \<and> objLine sampleFloat sampleFiles \<lparr>NeedNormals = False\<rparr> s1
             ([''v 0 0 0'', ''v 1 0 0'', ''v 0 1 0'', ''f 1 2 3'', ''mtllib m.mtl'',
               ''f 3 2 1''] ! n)
             = Failed (InvalidFormat (mustHave ''Kd'' ''3'') [''1'']) s2
         \<and> meshes s1 = [''mesh-vtype0-materialdefault'' \<mapsto>
              \<lparr>Vertices = [0, 0, 0, 1, 0, 0, 0, 1, 0 :: int], Vtype = 0,
               MaterialName = ''default''\<rparr>]
         \<and> materials s2 = [''wood'' \<mapsto> newMaterial ''wood''])"
proof -
  note main = failure_keeps_what_was_written [OF sample_run_fails]
  from main have kept: "bucketsKept (Map.empty :: int MeshMap)
     [''mesh-vtype0-materialdefault'' \<mapsto>
        \<lparr>Vertices = [0, 0, 0, 1, 0, 0, 0, 1, 0], Vtype = 0, MaterialName = ''default''\<rparr>]"
    by blast
  have "sampleFiles ''a.obj'' \<noteq> None"
    by (simp add: sampleFiles_def)
  moreover have "InvalidFormat (mustHave ''Kd'' ''3'') [''1''] \<noteq> ReadError"
    by simp
  ultimately obtain f n s1 s2 where f: "sampleFiles ''a.obj'' = Some f" and n: "n < length (fst f)"
    and run: "objLines sampleFloat sampleFiles \<lparr>NeedNormals = False\<rparr>
                (initState Map.empty Map.empty) (take n (fst f)) = Done s1"
    and bad: "objLine sampleFloat sampleFiles \<lparr>NeedNormals = False\<rparr> s1 (fst f ! n)
                = Failed (InvalidFormat (mustHave ''Kd'' ''3'') [''1'']) s2"
    and ms: "[''mesh-vtype0-materialdefault'' \<mapsto>
        \<lparr>Vertices = [0, 0, 0, 1, 0, 0, 0, 1, 0 :: int], Vtype = 0, MaterialName = ''default''\<rparr>]
        = meshes s1"
    and mats: "[''wood'' \<mapsto> newMaterial ''wood''] = materials s2"
    using main by blast
  from f have "fst f = [''v 0 0 0'', ''v 1 0 0'', ''v 0 1 0'', ''f 1 2 3'', ''mtllib m.mtl'',
                      ''f 3 2 1'']"
    by (auto simp: sampleFiles_def)
  with n run bad ms mats have "n < 6
         \<and> objLines sampleFloat sampleFiles \<lparr>NeedNormals = False\<rparr> (initState Map.empty Map.empty)
             (take n [''v 0 0 0'', ''v 1 0 0'', ''v 0 1 0'', ''f 1 2 3'', ''mtllib m.mtl'',
                      ''f 3 2 1'']) = Done s1
         \<and> objLine sampleFloat sampleFiles \<lparr>NeedNormals = False\<rparr> s1
             ([''v 0 0 0'', ''v 1 0 0'', ''v 0 1 0'', ''f 1 2 3'', ''mtllib m.mtl'',
               ''f 3 2 1''] ! n)
             = Failed (InvalidFormat (mustHave ''Kd'' ''3'') [''1'']) s2
         \<and> meshes s1 = [''mesh-vtype0-materialdefault'' \<mapsto>
              \<lparr>Vertices = [0, 0, 0, 1, 0, 0, 0, 1, 0 :: int], Vtype = 0,
               MaterialName = ''default''\<rparr>]
         \<and> materials s2 = [''wood'' \<mapsto> newMaterial ''wood'']"
    by simp
  with kept show ?thesis
    by blast
qed
end
